theory Spec2Isabelle
  imports Main "HOL-Library.Word"
begin

section \<open>cupy/random/\_bit\_generator.pyx: data model\<close>

text \<open>
  The module is Cython. Three things of the language shape the model.
  \<^item> A Python \<open>int\<close> is unbounded: \<open>int\<close>.
  \<^item> Converting a Python \<open>int\<close> to a C integer type (an assignment to a \<open>cdef\<close>
    variable of that type, or an argument of a C function) checks the range and raises
    \<open>OverflowError\<close> outside it; nothing wraps around.
  \<^item> A C function handed to a \<open>def\<close> method as an argument (\<open>func\<close> of
    \<open>_launch_distribution_kernel\<close>) is wrapped into a Python callable whose parameters
    have the C types of its declaration, so the same checked conversion happens at every
    call \<open>func(...)\<close>.
\<close>

datatype error =
    RuntimeError          \<comment> \<open>raised by \<open>_check_device\<close>\<close>
  | ValueError            \<comment> \<open>raised by \<open>integers\<close>; also the array layer's shape errors\<close>
  | NotImplementedError   \<comment> \<open>raised by \<open>standard_exponential\<close>\<close>
  | OverflowError         \<comment> \<open>a Python int outside the range of the C type it is converted to\<close>
  | IndexError            \<comment> \<open>slicing an array that has no axis\<close>
  | AttributeError        \<comment> \<open>calling a method that the object's class does not have\<close>

datatype rand_generators = CURAND_XOR_WOW | CURAND_MRG32k3a | CURAND_PHILOX_4x32_10

text \<open>A C \<open>double\<close> is only ever passed through; it is carried by its 64 bits.\<close>

type_synonym double = "64 word"

definition UINT32_MAX :: int where
  "UINT32_MAX = 0xffffffff"

definition UINT64_MAX :: int where
  "UINT64_MAX = 0xffffffffffffffff"

definition SSIZE_MAX :: int where
  "SSIZE_MAX = 0x7fffffffffffffff"

definition as_uint32 :: "int \<Rightarrow> error + int" where
  "as_uint32 v = (if 0 \<le> v \<and> v \<le> UINT32_MAX then Inr v else Inl OverflowError)"

definition as_uint64 :: "int \<Rightarrow> error + int" where
  "as_uint64 v = (if 0 \<le> v \<and> v \<le> UINT64_MAX then Inr v else Inl OverflowError)"

definition as_ssize :: "int \<Rightarrow> error + int" where
  "as_ssize v = (if - SSIZE_MAX - 1 \<le> v \<and> v \<le> SSIZE_MAX then Inr v else Inl OverflowError)"

text \<open>Python's \<open>int.bit_length()\<close>: the number of bits of the absolute value, 0 for 0.\<close>

fun bits_of :: "nat \<Rightarrow> nat" where
  "bits_of n = (if n = 0 then 0 else Suc (bits_of (n div 2)))"

declare bits_of.simps [simp del]

definition bit_length :: "int \<Rightarrow> nat" where
  "bit_length x = bits_of (nat \<bar>x\<bar>)"

subsection \<open>Arrays and device memory\<close>

datatype dtype = int8 | int32 | uint32 | uint64 | float32 | float64

fun itemsize :: "dtype \<Rightarrow> nat" where
  "itemsize int8 = 1"
| "itemsize int32 = 4"
| "itemsize uint32 = 4"
| "itemsize uint64 = 8"
| "itemsize float32 = 4"
| "itemsize float64 = 8"

text \<open>
  An \<open>ndarray\<close> object, C-contiguous: its shape, its element type and \<open>data.ptr\<close>, the
  device address of its first element. Element \<open>k\<close> (in row-major order) lies at
  \<open>data_ptr + k * itemsize\<close>.
\<close>

record ndarray =
  shape :: "nat list"
  dtype_of :: dtype
  data_ptr :: int

definition nd_size :: "ndarray \<Rightarrow> nat" where
  "nd_size a = prod_list (shape a)"

definition elem_addr :: "ndarray \<Rightarrow> nat \<Rightarrow> int" where
  "elem_addr a k = data_ptr a + int (k * itemsize (dtype_of a))"

text \<open>
  The external kernels, exactly as the \<open>cdef extern\<close> block declares them; a value of
  this type is one call that reached the kernel library, with its C arguments.
\<close>

datatype launch =
    Init_curand_generator
      (l_generator: rand_generators) (l_state: int) (l_seed: int) (l_size: nat) (l_stream: int)
  | Interval_32
      (l_generator: rand_generators) (l_state: int) (l_out: int) (l_size: nat) (l_stream: int)
      (l_mx: int) (l_mask: int)
  | Interval_64
      (l_generator: rand_generators) (l_state: int) (l_out: int) (l_size: nat) (l_stream: int)
      (l_mx: int) (l_mask: int)
  | Beta
      (l_generator: rand_generators) (l_state: int) (l_out: int) (l_size: nat) (l_stream: int)
      (l_a: double) (l_b: double)
  | Exponential
      (l_generator: rand_generators) (l_state: int) (l_out: int) (l_size: nat) (l_stream: int)

text \<open>
  What the module reads from and does to its surroundings: the active device
  (\<open>cupy.cuda.Device().id\<close>), the current stream (\<open>stream.get_current_stream_ptr()\<close>), the
  device memory with its allocations, and the kernel calls issued so far, oldest first.
  What a kernel writes is not known to this module: \<open>w_kernels\<close> is the kernel library's
  effect on memory, any function.
\<close>

record world =
  w_device :: int
  w_stream :: int
  w_brk :: int
  w_allocs :: "(int \<times> nat) list"
  w_mem :: "int \<Rightarrow> int"
  w_launches :: "launch list"
  w_kernels :: "launch \<Rightarrow> (int \<Rightarrow> int) \<Rightarrow> int \<Rightarrow> int"

definition run_kernel :: "launch \<Rightarrow> world \<Rightarrow> world" where
  "run_kernel l w = w\<lparr>w_launches := w_launches w @ [l], w_mem := w_kernels w l (w_mem w)\<rparr>"

text \<open>
  Modelled from the spec: the array layer (\<open>cupy.core.core.ndarray\<close>, \<open>cupy.zeros\<close>) is
  not part of the source file; the spec names host-side array allocation and device memory
  management as external collaborators. \<open>ndarray(shape, dtype)\<close> gives a fresh
  uninitialised C-contiguous buffer; here the next free address, recorded in \<open>w_allocs\<close>
  with its size in bytes.
\<close>

definition ndarray_new :: "nat list \<Rightarrow> dtype \<Rightarrow> world \<Rightarrow> ndarray \<times> world" where
  "ndarray_new shp dt w =
     (let nbytes = prod_list shp * itemsize dt
      in (\<lparr>shape = shp, dtype_of = dt, data_ptr = w_brk w\<rparr>,
          w\<lparr>w_brk := w_brk w + int nbytes, w_allocs := w_allocs w @ [(w_brk w, nbytes)]\<rparr>))"

text \<open>Writing the values \<open>vs\<close> to the first \<open>length vs\<close> elements of an array.\<close>

definition store_elems :: "ndarray \<Rightarrow> int list \<Rightarrow> (int \<Rightarrow> int) \<Rightarrow> int \<Rightarrow> int" where
  "store_elems a vs m =
     (\<lambda>addr. let off = addr - data_ptr a; isz = int (itemsize (dtype_of a))
             in if 0 \<le> off \<and> off mod isz = 0 \<and> off div isz < int (length vs)
                then vs ! nat (off div isz) else m addr)"

definition elems :: "ndarray \<Rightarrow> (int \<Rightarrow> int) \<Rightarrow> int list" where
  "elems a m = map (\<lambda>k. m (elem_addr a k)) [0..<nd_size a]"

text \<open>
  Modelled from the spec: \<open>cupy.zeros(n, dtype)\<close> of the array layer, "a zero-initialized
  device buffer".
\<close>

definition zeros :: "nat \<Rightarrow> dtype \<Rightarrow> world \<Rightarrow> ndarray \<times> world" where
  "zeros n dt w =
     (let (a, w1) = ndarray_new [n] dt w
      in (a, w1\<lparr>w_mem := store_elems a (replicate n 0) (w_mem w1)\<rparr>))"

text \<open>
  Modelled from the spec: the slice \<open>a[k:]\<close> of the array layer, a view on the same
  memory. Python slicing applies to the first axis and clamps \<open>k\<close> to its length; an
  array without axes cannot be sliced.
\<close>

definition slice_from :: "ndarray \<Rightarrow> nat \<Rightarrow> error + ndarray" where
  "slice_from a k =
     (case shape a of
        [] \<Rightarrow> Inl IndexError
      | n # rest \<Rightarrow>
          Inr (a\<lparr>shape := (n - min k n) # rest,
                 data_ptr := elem_addr a (min k n * prod_list rest)\<rparr>))"

text \<open>
  Modelled from the spec: \<open>out[...] = y\<close> of the array layer, "the freshly sampled buffer
  is copied into destination in place". The array layer broadcasts the source to the shape
  of the destination: the axes of the source are matched with the last axes of the
  destination, and each must have the destination's length or length 1, along which the
  one element is repeated; a source that cannot be broadcast is refused with
  \<open>ValueError\<close>. \<open>unravel\<close> and \<open>ravel\<close> convert between an element's row-major position
  and its index along each axis; \<open>source_index\<close> is the position in the source of the
  element that goes to position \<open>k\<close> of the destination. All values are read before any
  is written. Conversion between element types is not modelled.
\<close>

definition broadcastable :: "nat list \<Rightarrow> nat list \<Rightarrow> bool" where
  "broadcastable src dst \<longleftrightarrow>
     length src \<le> length dst
     \<and> list_all2 (\<lambda>s d. s = d \<or> s = 1) src (drop (length dst - length src) dst)"

fun unravel :: "nat list \<Rightarrow> nat \<Rightarrow> nat list" where
  "unravel [] k = []"
| "unravel (d # ds) k = (k div prod_list ds) # unravel ds (k mod prod_list ds)"

fun ravel :: "nat list \<Rightarrow> nat list \<Rightarrow> nat" where
  "ravel (d # ds) (i # is) = i * prod_list ds + ravel ds is"
| "ravel ds is = 0"

definition source_index :: "nat list \<Rightarrow> nat list \<Rightarrow> nat \<Rightarrow> nat" where
  "source_index src dst k =
     ravel src (map2 (\<lambda>s i. if s = 1 then 0 else i) src
                  (drop (length dst - length src) (unravel dst k)))"

definition assign_all :: "ndarray \<Rightarrow> ndarray \<Rightarrow> world \<Rightarrow> (error + unit) \<times> world" where
  "assign_all dst src w =
     (if broadcastable (shape src) (shape dst)
      then (Inr (),
            w\<lparr>w_mem := store_elems dst
                       (map (\<lambda>k. w_mem w (elem_addr src (source_index (shape src) (shape dst) k)))
                          [0..<nd_size dst])
                       (w_mem w)\<rparr>)
      else (Inl ValueError, w))"

text \<open>
  Modelled from the spec: \<open>low + y\<close> of the array layer, "Result = low + sampledOffsets
  (elementwise), returned as a fresh array of the computed width".
\<close>

definition add_scalar :: "int \<Rightarrow> ndarray \<Rightarrow> world \<Rightarrow> ndarray \<times> world" where
  "add_scalar low y w =
     (let (z, w1) = ndarray_new (shape y) (dtype_of y) w
      in (z, w1\<lparr>w_mem := store_elems z (map (\<lambda>v. low + v) (elems y (w_mem w1))) (w_mem w1)\<rparr>))"

subsection \<open>BitGenerator and its cuRAND variants\<close>

text \<open>\<open>threading.Lock()\<close> creates an unlocked lock; the module has no call that acquires it.\<close>

datatype lock = Unlocked | Locked

text \<open>
  Modelled from the spec: \<open>sizeof(curandState)\<close>, \<open>sizeof(curandStateMRG32k3a)\<close> and
  \<open>sizeof(curandStatePhilox4_32_10_t)\<close> are constants of the header
  \<open>cupy_distributions.cuh\<close>, which is not part of the source file; the spec says of them
  that \<open>perStreamStateBytes(tag) > 0\<close>, as C++ does of the size of any class. \<open>csize\<close> is
  such a size, a positive number of bytes.
\<close>

typedef csize = "{n :: nat. 0 < n}"
  morphisms bytes Csize
  by (rule exI [of _ 1]) simp

record cuh_sizes =
  sizeof_curandState :: csize
  sizeof_curandStateMRG32k3a :: csize
  sizeof_curandStatePhilox4_32_10_t :: csize

text \<open>
  Modelled from the spec: \<open>perStreamStateBytes(tag)\<close>, "sizes of the underlying
  per-stream context structures -- these are algorithm-specific constants supplied by the
  external kernel library". The three \<open>_type_size\<close> methods of \<open>XORWOW\<close>, \<open>MRG32k3a\<close>
  and \<open>Philox4x3210\<close>, selected by the class, which the \<open>generator\<close> tag identifies.
\<close>

fun type_size :: "cuh_sizes \<Rightarrow> rand_generators \<Rightarrow> nat" where
  "type_size h CURAND_XOR_WOW = bytes (sizeof_curandState h)"
| "type_size h CURAND_MRG32k3a = bytes (sizeof_curandStateMRG32k3a h)"
| "type_size h CURAND_PHILOX_4x32_10 = bytes (sizeof_curandStatePhilox4_32_10_t h)"

text \<open>
  An instance of one of the three concrete classes. The fields of \<open>BitGenerator\<close>
  (\<open>lock\<close>, \<open>_current_device\<close>) and of \<open>_cuRANDGenerator\<close> (\<open>_seed\<close>, \<open>_size\<close>,
  \<open>_state\<close>), and the class attribute \<open>generator\<close>. No method assigns a field after
  \<open>__init__\<close>, so the operations below take the instance and do not return it.
\<close>

record bit_generator =
  bg_lock :: lock
  bg_current_device :: int
  bg_seed :: int
  bg_size :: nat
  bg_state :: ndarray
  bg_generator :: rand_generators

text \<open>
  A seed is \<open>None\<close>, an int or a sequence of ints. \<open>numpy.random.SeedSequence(seed)
  .generate_state(1, numpy.uint64)[0]\<close> is external: the parameter \<open>expand\<close>, whose result
  is a \<open>numpy.uint64\<close>.
\<close>

type_synonym seed = "int list option"

definition default_size :: nat where
  "default_size = 1024 * 100"

text \<open>
  \<open>_cuRANDGenerator.__init__\<close>, with \<open>BitGenerator.__init__\<close> inlined. \<open>size\<close> is a
  count, a natural number. \<open>b_size\<close> is a C \<open>ssize_t\<close>; the arguments of
  \<open>init_curand_generator\<close> are converted to its parameter types.
\<close>

definition cuRANDGenerator_init ::
  "cuh_sizes \<Rightarrow> (seed \<Rightarrow> 64 word) \<Rightarrow> rand_generators \<Rightarrow> seed \<Rightarrow> nat \<Rightarrow> world
   \<Rightarrow> (error + bit_generator) \<times> world" where
  "cuRANDGenerator_init h expand gen sd sz w =
     (let lck = Unlocked;
          dev = w_device w;
          seed64 = uint (expand sd)
      in case as_ssize (int (type_size h gen * sz)) of
           Inl e \<Rightarrow> (Inl e, w)
         | Inr b_size \<Rightarrow>
             let (st, w1) = zeros (nat b_size) int8 w;
                 state_ptr = data_ptr st;
                 strm = w_stream w1
             in (case as_uint64 seed64 of
                   Inl e \<Rightarrow> (Inl e, w1)
                 | Inr c_seed \<Rightarrow>
                     (case as_ssize (int sz) of
                        Inl e \<Rightarrow> (Inl e, w1)
                      | Inr _ \<Rightarrow>
                          (Inr \<lparr>bg_lock = lck, bg_current_device = dev, bg_seed = seed64,
                                bg_size = sz, bg_state = st, bg_generator = gen\<rparr>,
                           run_kernel (Init_curand_generator gen state_ptr c_seed sz strm) w1))))"

definition check_device :: "bit_generator \<Rightarrow> world \<Rightarrow> error + unit" where
  "check_device g w = (if w_device w \<noteq> bg_current_device g then Inl RuntimeError else Inr ())"

definition state :: "bit_generator \<Rightarrow> world \<Rightarrow> error + int" where
  "state g w = (case check_device g w of Inl e \<Rightarrow> Inl e | Inr _ \<Rightarrow> Inr (data_ptr (bg_state g)))"

definition state_size :: "bit_generator \<Rightarrow> nat" where
  "state_size g = bg_size g"

text \<open>
  An instance of the base class \<open>BitGenerator\<close> has the fields \<open>lock\<close>, \<open>_seed_seq\<close> and
  \<open>_current_device\<close>. Its \<open>state_size()\<close> returns 0; it has no method \<open>state\<close> and no
  attribute \<open>generator\<close>. \<open>Generator\<close> accepts any object as its bit generator: an
  instance of the base class or of one of the three concrete classes.
\<close>

record base_generator =
  bb_lock :: lock
  bb_seed_seq :: seed
  bb_current_device :: int

datatype bit_generator_object = BitGenerator base_generator | CuRAND bit_generator

definition object_state_size :: "bit_generator_object \<Rightarrow> nat" where
  "object_state_size obj = (case obj of BitGenerator b \<Rightarrow> 0 | CuRAND g \<Rightarrow> state_size g)"

subsection \<open>Generator\<close>

text \<open>
  The \<open>func\<close> and \<open>*args\<close> of \<open>_launch_distribution_kernel\<close>, as the three sampling
  methods pass them: the kernel and the Python values given for its last parameters.
\<close>

datatype distribution =
    interval_32 int int
  | interval_64 int int
  | beta double double
  | exponential

text \<open>
  The call \<open>func(generator, state, y_ptr, size, strm, *args)\<close>: the arguments are
  converted to the parameter types of the \<open>cdef extern\<close> declaration, then the kernel
  is called. The tag, the pointers and the element count are C values of these types
  already.
\<close>

fun invoke ::
  "distribution \<Rightarrow> rand_generators \<Rightarrow> int \<Rightarrow> int \<Rightarrow> nat \<Rightarrow> int \<Rightarrow> error + launch" where
  "invoke (interval_32 mx msk) gen st out n strm =
     (case as_uint32 mx of
        Inl e \<Rightarrow> Inl e
      | Inr mx' \<Rightarrow>
          (case as_uint32 msk of
             Inl e \<Rightarrow> Inl e
           | Inr msk' \<Rightarrow> Inr (Interval_32 gen st out n strm mx' msk')))"
| "invoke (interval_64 mx msk) gen st out n strm =
     (case as_uint64 mx of
        Inl e \<Rightarrow> Inl e
      | Inr mx' \<Rightarrow>
          (case as_uint64 msk of
             Inl e \<Rightarrow> Inl e
           | Inr msk' \<Rightarrow> Inr (Interval_64 gen st out n strm mx' msk')))"
| "invoke (beta a b) gen st out n strm = Inr (Beta gen st out n strm a b)"
| "invoke exponential gen st out n strm = Inr (Exponential gen st out n strm)"

text \<open>
  The loop \<open>for i in range(chunks)\<close> of \<open>_launch_distribution_kernel\<close>, over the
  indices still to come. An exception leaves the loop; the calls made before it stay made.
\<close>

fun launch_chunks ::
  "distribution \<Rightarrow> rand_generators \<Rightarrow> int \<Rightarrow> int \<Rightarrow> ndarray \<Rightarrow> nat \<Rightarrow> nat list \<Rightarrow> world
   \<Rightarrow> (error + unit) \<times> world" where
  "launch_chunks func gen st strm out bsize [] w = (Inr (), w)"
| "launch_chunks func gen st strm out bsize (i # is) w =
     (case slice_from out (i * bsize) of
        Inl e \<Rightarrow> (Inl e, w)
      | Inr chunk \<Rightarrow>
          (case invoke func gen st (data_ptr chunk) (nd_size chunk) strm of
             Inl e \<Rightarrow> (Inl e, w)
           | Inr l \<Rightarrow> launch_chunks func gen st strm out bsize is (run_kernel l w)))"

definition launch_distribution_kernel ::
  "bit_generator \<Rightarrow> distribution \<Rightarrow> ndarray \<Rightarrow> world \<Rightarrow> (error + unit) \<times> world" where
  "launch_distribution_kernel g func out w =
     (let strm = w_stream w
      in case state g w of
           Inl e \<Rightarrow> (Inl e, w)
         | Inr state_ptr \<Rightarrow>
             let y_ptr = data_ptr out;
                 gen = bg_generator g;
                 bsize = state_size g
             in if bsize = 0
                then (case invoke func gen state_ptr y_ptr (nd_size out) strm of
                        Inl e \<Rightarrow> (Inl e, w)
                      | Inr l \<Rightarrow> (Inr (), run_kernel l w))
                else let chunks = (nd_size out + bsize - 1) div bsize
                     in launch_chunks func gen state_ptr strm out bsize [0..<chunks] w)"

text \<open>
  \<open>_launch_distribution_kernel\<close> of a \<open>Generator\<close> on any bit generator object. Its first
  use of the object is \<open>self._bit_generator.state()\<close>, which raises \<open>AttributeError\<close> on an
  instance of the base class, before \<open>state_size()\<close> is asked.
\<close>

definition launch_distribution_kernel_on ::
  "bit_generator_object \<Rightarrow> distribution \<Rightarrow> ndarray \<Rightarrow> world \<Rightarrow> (error + unit) \<times> world" where
  "launch_distribution_kernel_on obj func out w =
     (case obj of
        BitGenerator b \<Rightarrow> (Inl AttributeError, w)
      | CuRAND g \<Rightarrow> launch_distribution_kernel g func out w)"

text \<open>\<open>size if size is not None else ()\<close>: a shape; an int \<open>n\<close> is the shape \<open>(n,)\<close>.\<close>

definition shape_arg :: "nat list option \<Rightarrow> nat list" where
  "shape_arg sz = (case sz of None \<Rightarrow> [] | Some shp \<Rightarrow> shp)"

definition integers_diff :: "int \<Rightarrow> int \<Rightarrow> bool \<Rightarrow> int" where
  "integers_diff low high endpoint =
     (let diff = high - low in if \<not> endpoint then diff - 1 else diff)"

definition integers_mask :: "int \<Rightarrow> int" where
  "integers_mask diff = 2 ^ bit_length diff - 1"

text \<open>
  \<open>Generator.integers\<close>. The mask is a \<open>cdef uint64_t\<close>, so its value is converted
  where it is computed, before the tests on \<open>diff\<close>. The \<open>dtype\<close> argument is
  overwritten before it is read.
\<close>

definition integers ::
  "bit_generator \<Rightarrow> int \<Rightarrow> int \<Rightarrow> nat list option \<Rightarrow> dtype \<Rightarrow> bool \<Rightarrow> world
   \<Rightarrow> (error + ndarray) \<times> world" where
  "integers g low high sz dt endpoint w =
     (let diff = integers_diff low high endpoint
      in case as_uint64 (integers_mask diff) of
           Inl e \<Rightarrow> (Inl e, w)
         | Inr msk \<Rightarrow>
             (case (if diff \<le> UINT32_MAX then Inr uint32
                    else if diff \<le> UINT64_MAX then Inr uint64
                    else Inl ValueError) of
                Inl e \<Rightarrow> (Inl e, w)
              | Inr dt' \<Rightarrow>
                  let (y, w1) = ndarray_new (shape_arg sz) dt' w;
                      (r, w2) = (if dt' = uint32
                                 then launch_distribution_kernel g (interval_32 diff msk) y w1
                                 else launch_distribution_kernel g (interval_64 diff msk) y w1)
                  in (case r of
                        Inl e \<Rightarrow> (Inl e, w2)
                      | Inr _ \<Rightarrow> (let (z, w3) = add_scalar low y w2 in (Inr z, w3)))))"

definition beta_sample ::
  "bit_generator \<Rightarrow> double \<Rightarrow> double \<Rightarrow> nat list option \<Rightarrow> dtype \<Rightarrow> world
   \<Rightarrow> (error + ndarray) \<times> world" where
  "beta_sample g a b sz dt w =
     (let (y, w1) = ndarray_new (shape_arg sz) dt w;
          (r, w2) = launch_distribution_kernel g (beta a b) y w1
      in case r of Inl e \<Rightarrow> (Inl e, w2) | Inr _ \<Rightarrow> (Inr y, w2))"

definition standard_exponential ::
  "bit_generator \<Rightarrow> nat list option \<Rightarrow> dtype \<Rightarrow> string \<Rightarrow> ndarray option \<Rightarrow> world
   \<Rightarrow> (error + ndarray) \<times> world" where
  "standard_exponential g sz dt method out w =
     (if method = ''zig'' then (Inl NotImplementedError, w)
      else
        let (y, w1) = ndarray_new (shape_arg sz) dt w;
            (r, w2) = launch_distribution_kernel g exponential y w1
        in (case r of
              Inl e \<Rightarrow> (Inl e, w2)
            | Inr _ \<Rightarrow>
                (case out of
                   None \<Rightarrow> (Inr y, w2)
                 | Some dst \<Rightarrow>
                     (case assign_all dst y w2 of
                        (Inl e, w3) \<Rightarrow> (Inl e, w3)
                      | (Inr _, w3) \<Rightarrow> (Inr dst, w3)))))"

subsection \<open>Vocabulary of the statements\<close>

text \<open>
  The arguments \<open>*args\<close> of a kernel fit when each is within the C type of its
  parameter; the call that then reaches the kernel library is \<open>call_of\<close>.
\<close>

fun fits :: "distribution \<Rightarrow> bool" where
  "fits (interval_32 mx msk) = (0 \<le> mx \<and> mx \<le> UINT32_MAX \<and> 0 \<le> msk \<and> msk \<le> UINT32_MAX)"
| "fits (interval_64 mx msk) = (0 \<le> mx \<and> mx \<le> UINT64_MAX \<and> 0 \<le> msk \<and> msk \<le> UINT64_MAX)"
| "fits (beta a b) = True"
| "fits exponential = True"

fun call_of :: "distribution \<Rightarrow> rand_generators \<Rightarrow> int \<Rightarrow> int \<Rightarrow> nat \<Rightarrow> int \<Rightarrow> launch" where
  "call_of (interval_32 mx msk) gen st out n strm = Interval_32 gen st out n strm mx msk"
| "call_of (interval_64 mx msk) gen st out n strm = Interval_64 gen st out n strm mx msk"
| "call_of (beta a b) gen st out n strm = Beta gen st out n strm a b"
| "call_of exponential gen st out n strm = Exponential gen st out n strm"

text \<open>The call of loop index \<open>i\<close>: the view \<open>out[i*bsize:]\<close>, its pointer and its size.\<close>

definition chunk_call ::
  "distribution \<Rightarrow> rand_generators \<Rightarrow> int \<Rightarrow> int \<Rightarrow> ndarray \<Rightarrow> nat \<Rightarrow> nat \<Rightarrow> launch" where
  "chunk_call func gen st strm out bsize i =
     (let k = min (i * bsize) (hd (shape out)); row = prod_list (tl (shape out))
      in call_of func gen st (elem_addr out (k * row)) ((hd (shape out) - k) * row) strm)"

definition run_all :: "launch list \<Rightarrow> world \<Rightarrow> world" where
  "run_all ls w = fold run_kernel ls w"

definition chunks_of :: "nat \<Rightarrow> nat \<Rightarrow> nat" where
  "chunks_of n bsize = (n + bsize - 1) div bsize"

text \<open>What an operation added to the world: kernel calls and allocations.\<close>

definition new_launches :: "world \<Rightarrow> world \<Rightarrow> launch list" where
  "new_launches w w' = drop (length (w_launches w)) (w_launches w')"

definition new_allocs :: "world \<Rightarrow> world \<Rightarrow> (int \<times> nat) list" where
  "new_allocs w w' = drop (length (w_allocs w)) (w_allocs w')"

text \<open>The calls one dispatch issues, read off the paths of the dispatcher.\<close>

definition issued :: "bit_generator \<Rightarrow> distribution \<Rightarrow> ndarray \<Rightarrow> world \<Rightarrow> launch list" where
  "issued g func out w =
     (if w_device w \<noteq> bg_current_device g \<or> \<not> fits func then []
      else if bg_size g = 0
      then [call_of func (bg_generator g) (data_ptr (bg_state g)) (data_ptr out) (nd_size out)
              (w_stream w)]
      else if nd_size out = 0 \<or> shape out = [] then []
      else map (chunk_call func (bg_generator g) (data_ptr (bg_state g)) (w_stream w) out
                  (bg_size g)) [0..<chunks_of (nd_size out) (bg_size g)])"

text \<open>
  The buffer a sampling method allocates first, and for \<open>integers\<close> the element type and
  the kernel with its arguments that the tests on \<open>diff\<close> select.
\<close>

definition sampled :: "nat list option \<Rightarrow> dtype \<Rightarrow> world \<Rightarrow> ndarray" where
  "sampled sz dt w = \<lparr>shape = shape_arg sz, dtype_of = dt, data_ptr = w_brk w\<rparr>"

definition width_of :: "int \<Rightarrow> dtype" where
  "width_of diff = (if diff \<le> UINT32_MAX then uint32 else uint64)"

definition interval_of :: "int \<Rightarrow> distribution" where
  "interval_of diff =
     (if diff \<le> UINT32_MAX then interval_32 diff (integers_mask diff)
      else interval_64 diff (integers_mask diff))"

subsection \<open>Concrete inputs\<close>

text \<open>
  A kernel library whose exponential kernel writes the value 7 to every double of the range
  it is given. A world on device 0 in which one state buffer is allocated, an XORWOW
  generator of \<open>n\<close> streams living in that buffer, a one-dimensional output buffer of
  \<open>n\<close> doubles and a destination buffer of 3 doubles.
\<close>

definition ex_kernels :: "launch \<Rightarrow> (int \<Rightarrow> int) \<Rightarrow> int \<Rightarrow> int" where
  "ex_kernels l m =
     (case l of
        Exponential gen st out n strm \<Rightarrow> (\<lambda>a. if out \<le> a \<and> a < out + 8 * int n then 7 else m a)
      | _ \<Rightarrow> m)"

definition ex_world :: world where
  "ex_world = \<lparr>w_device = 0, w_stream = 7, w_brk = 4096, w_allocs = [(1024, 96)],
      w_mem = (\<lambda>_. 0), w_launches = [], w_kernels = ex_kernels\<rparr>"

definition ex_destination :: ndarray where
  "ex_destination = \<lparr>shape = [3], dtype_of = float64, data_ptr = 2048\<rparr>"

text \<open>
  A kernel library whose exponential kernel writes 10, 11, 12, ... to the doubles of its
  range, the world with it, and destinations of two rows of 3 doubles and of 2 doubles.
\<close>

definition ex_ramp :: "launch \<Rightarrow> (int \<Rightarrow> int) \<Rightarrow> int \<Rightarrow> int" where
  "ex_ramp l m =
     (case l of
        Exponential gen st out n strm \<Rightarrow>
          (\<lambda>a. if out \<le> a \<and> a < out + 8 * int n then 10 + (a - out) div 8 else m a)
      | _ \<Rightarrow> m)"

definition ex_ramp_world :: world where
  "ex_ramp_world = \<lparr>w_device = 0, w_stream = 7, w_brk = 4096, w_allocs = [(1024, 96)],
      w_mem = (\<lambda>_. 0), w_launches = [], w_kernels = ex_ramp\<rparr>"

definition ex_rows :: ndarray where
  "ex_rows = \<lparr>shape = [2, 3], dtype_of = float64, data_ptr = 2048\<rparr>"

definition ex_short :: ndarray where
  "ex_short = \<lparr>shape = [2], dtype_of = float64, data_ptr = 2048\<rparr>"

text \<open>An instance of the base class, and the generator that \<open>XORWOW(size=2)\<close> constructs.\<close>

definition ex_base :: bit_generator_object where
  "ex_base = BitGenerator \<lparr>bb_lock = Unlocked, bb_seed_seq = None, bb_current_device = 0\<rparr>"

definition ex_constructed :: bit_generator where
  "ex_constructed = \<lparr>bg_lock = Unlocked, bg_current_device = 0, bg_seed = 42, bg_size = 2,
     bg_state = \<lparr>shape = [96], dtype_of = int8, data_ptr = 4096\<rparr>,
     bg_generator = CURAND_XOR_WOW\<rparr>"

definition ex_generator :: "nat \<Rightarrow> bit_generator" where
  "ex_generator n = \<lparr>bg_lock = Unlocked, bg_current_device = 0, bg_seed = 42, bg_size = n,
     bg_state = \<lparr>shape = [48 * n], dtype_of = int8, data_ptr = 1024\<rparr>,
     bg_generator = CURAND_XOR_WOW\<rparr>"

definition ex_buffer :: "nat \<Rightarrow> ndarray" where
  "ex_buffer n = \<lparr>shape = [n], dtype_of = float64, data_ptr = 4096\<rparr>"

text \<open>Sizes of the three state structures, for the examples only.\<close>

definition ex_sizes :: cuh_sizes where
  "ex_sizes = \<lparr>sizeof_curandState = Csize 48, sizeof_curandStateMRG32k3a = Csize 72,
     sizeof_curandStatePhilox4_32_10_t = Csize 64\<rparr>"

section \<open>Properties\<close>

subsection \<open>Bit length\<close>

lemma bits_of_0 [simp]: "bits_of 0 = 0"
  by (simp add: bits_of.simps)

lemma bits_of_pos: "0 < n \<Longrightarrow> bits_of n = Suc (bits_of (n div 2))"
  by (subst bits_of.simps) simp

lemma bits_of_less: "n < 2 ^ bits_of n"
proof (induction n rule: bits_of.induct)
  case (1 n)
  show ?case
  proof (cases "n = 0")
    case True
    then show ?thesis by simp
  next
    case False
    then have "n div 2 < 2 ^ bits_of (n div 2)" using 1 by simp
    then have "n < 2 * 2 ^ bits_of (n div 2)" by linarith
    then show ?thesis using False by (simp add: bits_of_pos)
  qed
qed

lemma bits_of_le: "n < 2 ^ k \<Longrightarrow> bits_of n \<le> k"
proof (induction n arbitrary: k rule: bits_of.induct)
  case (1 n)
  show ?case
  proof (cases "n = 0")
    case True
    then show ?thesis by simp
  next
    case False
    then obtain j where k: "k = Suc j" using "1.prems" by (cases k) auto
    then have "n div 2 < 2 ^ j" using "1.prems" by auto
    then have "bits_of (n div 2) \<le> j" using 1 False by simp
    then show ?thesis using False k by (simp add: bits_of_pos)
  qed
qed

lemma bits_of_eq: "2 ^ k \<le> n \<Longrightarrow> n < 2 ^ Suc k \<Longrightarrow> bits_of n = Suc k"
proof -
  assume a: "2 ^ k \<le> n" and b: "n < 2 ^ Suc k"
  have "bits_of n \<le> Suc k" using b by (rule bits_of_le)
  moreover have "\<not> bits_of n \<le> k"
  proof
    assume "bits_of n \<le> k"
    then have "(2::nat) ^ bits_of n \<le> 2 ^ k" by (simp add: power_increasing)
    then show False using bits_of_less [of n] a by linarith
  qed
  ultimately show ?thesis by linarith
qed

lemma bit_length_eq: "2 ^ k \<le> \<bar>x\<bar> \<Longrightarrow> \<bar>x\<bar> < 2 ^ Suc k \<Longrightarrow> bit_length x = Suc k"
  unfolding bit_length_def
  by (rule bits_of_eq) (simp_all add: nat_le_iff nat_less_iff le_nat_iff)

lemma bit_length_0 [simp]: "bit_length 0 = 0"
  by (simp add: bit_length_def)

lemma abs_less_power_bit_length: "\<bar>x\<bar> < 2 ^ bit_length x"
  using bits_of_less [of "nat \<bar>x\<bar>"] unfolding bit_length_def
  by (simp add: nat_less_iff)

lemma bit_length_le: "\<bar>x\<bar> < 2 ^ k \<Longrightarrow> bit_length x \<le> k"
  unfolding bit_length_def by (rule bits_of_le) (simp add: nat_less_iff)

subsection \<open>The dispatcher, case by case\<close>

lemma invoke_eq:
  "invoke func gen st p n strm =
     (if fits func then Inr (call_of func gen st p n strm) else Inl OverflowError)"
  by (cases func) (auto simp: as_uint32_def as_uint64_def)

lemma call_of_sel [simp]:
  "l_generator (call_of func gen st p n strm) = gen"
  "l_state (call_of func gen st p n strm) = st"
  "l_out (call_of func gen st p n strm) = p"
  "l_size (call_of func gen st p n strm) = n"
  "l_stream (call_of func gen st p n strm) = strm"
  by (cases func; simp)+

lemma run_all_Nil [simp]: "run_all [] w = w"
  by (simp add: run_all_def)

lemma run_all_Cons [simp]: "run_all (l # ls) w = run_all ls (run_kernel l w)"
  by (simp add: run_all_def)

lemma run_all_fields [simp]:
  "w_launches (run_all ls w) = w_launches w @ ls"
  "w_device (run_all ls w) = w_device w"
  "w_stream (run_all ls w) = w_stream w"
  "w_brk (run_all ls w) = w_brk w"
  "w_allocs (run_all ls w) = w_allocs w"
  "w_kernels (run_all ls w) = w_kernels w"
  by (induction ls arbitrary: w) (simp_all add: run_kernel_def)

lemma launch_chunks_no_axis:
  "shape out = [] \<Longrightarrow> launch_chunks func gen st strm out bsize (i # is) w = (Inl IndexError, w)"
  by (simp add: slice_from_def)

lemma launch_chunks_unfit:
  "shape out = n # rest \<Longrightarrow> \<not> fits func \<Longrightarrow>
   launch_chunks func gen st strm out bsize (i # is) w = (Inl OverflowError, w)"
  by (simp add: slice_from_def invoke_eq)

lemma launch_chunks_fit:
  "shape out = n # rest \<Longrightarrow> fits func \<Longrightarrow>
   launch_chunks func gen st strm out bsize is w =
     (Inr (), run_all (map (chunk_call func gen st strm out bsize) is) w)"
proof (induction "is" arbitrary: w)
  case Nil
  then show ?case by simp
next
  case (Cons i "is")
  then show ?case
    by (simp add: slice_from_def invoke_eq chunk_call_def nd_size_def Let_def)
qed

text \<open>
  Every path through \<open>_launch_distribution_kernel\<close>: the device guard, the single call
  when the generator reports no stream count, and the chunk loop, which stops at its first
  iteration when the buffer has no axis to slice or an argument does not fit.
\<close>

lemma launch_distribution_kernel_eq:
  "launch_distribution_kernel g func out w =
     (if w_device w \<noteq> bg_current_device g then (Inl RuntimeError, w)
      else if bg_size g = 0 then
        (if fits func
         then (Inr (), run_all [call_of func (bg_generator g) (data_ptr (bg_state g))
                                  (data_ptr out) (nd_size out) (w_stream w)] w)
         else (Inl OverflowError, w))
      else if nd_size out = 0 then (Inr (), w)
      else if shape out = [] then (Inl IndexError, w)
      else if fits func
      then (Inr (), run_all (map (chunk_call func (bg_generator g) (data_ptr (bg_state g))
                                    (w_stream w) out (bg_size g))
                               [0..<chunks_of (nd_size out) (bg_size g)]) w)
      else (Inl OverflowError, w))"
proof -
  have pos: "0 < nd_size out \<Longrightarrow> 0 < bg_size g \<Longrightarrow> 0 < chunks_of (nd_size out) (bg_size g)"
    by (simp add: chunks_of_def div_greater_zero_iff)
  have zero: "nd_size out = 0 \<Longrightarrow> 0 < bg_size g \<Longrightarrow> chunks_of (nd_size out) (bg_size g) = 0"
    by (simp add: chunks_of_def)
  show ?thesis
  proof (cases "w_device w \<noteq> bg_current_device g \<or> bg_size g = 0")
    case True
    then show ?thesis
      by (auto simp: launch_distribution_kernel_def state_def check_device_def state_size_def
            invoke_eq Let_def)
  next
    case False
    then have dev: "w_device w = bg_current_device g" and S: "0 < bg_size g" by auto
    let ?c = "chunks_of (nd_size out) (bg_size g)"
    have unfold: "launch_distribution_kernel g func out w =
        launch_chunks func (bg_generator g) (data_ptr (bg_state g)) (w_stream w) out (bg_size g)
          [0..<?c] w"
      using dev S
      by (simp add: launch_distribution_kernel_def state_def check_device_def state_size_def
            Let_def chunks_of_def)
    show ?thesis
    proof (cases "nd_size out = 0")
      case True
      then show ?thesis using unfold zero [OF True S] dev S by simp
    next
      case False
      then have c: "0 < ?c" using pos S by simp
      then have js: "[0..<?c] = 0 # [Suc 0..<?c]" by (simp add: upt_conv_Cons)
      show ?thesis
      proof (cases "shape out")
        case Nil
        have "launch_distribution_kernel g func out w = (Inl IndexError, w)"
          unfolding unfold js by (rule launch_chunks_no_axis [OF Nil])
        then show ?thesis using dev S False Nil by simp
      next
        case (Cons n rest)
        show ?thesis
        proof (cases "fits func")
          case True
          have "launch_distribution_kernel g func out w =
                (Inr (), run_all (map (chunk_call func (bg_generator g) (data_ptr (bg_state g))
                                    (w_stream w) out (bg_size g)) [0..<?c]) w)"
            unfolding unfold by (rule launch_chunks_fit [OF Cons True])
          then show ?thesis using dev S False Cons True by simp
        next
          case nf: False
          have "launch_distribution_kernel g func out w = (Inl OverflowError, w)"
            unfolding unfold js by (rule launch_chunks_unfit [OF Cons nf])
          then show ?thesis using dev S False Cons nf by simp
        qed
      qed
    qed
  qed
qed

lemma chunk_start_less: "0 < S \<Longrightarrow> i < (N + S - 1) div S \<Longrightarrow> i * S < (N::nat)"
proof -
  assume S: "0 < S" and i: "i < (N + S - 1) div S"
  then have "Suc i \<le> (N + S - 1) div S" by simp
  then have "Suc i * S \<le> N + S - 1" using S by (simp add: less_eq_div_iff_mult_less_eq)
  then show ?thesis using S by simp
qed

lemma chunks_bounds:
  "0 < S \<Longrightarrow> (N::nat) \<le> ((N + S - 1) div S) * S \<and> ((N + S - 1) div S) * S < N + S"
proof -
  assume S: "0 < S"
  let ?m = "N + S - 1"
  have "?m = (?m div S) * S + ?m mod S" by simp
  moreover have "?m mod S < S" using S by simp
  ultimately show ?thesis using S by linarith
qed

lemma chunks_of_one: "0 < N \<Longrightarrow> N \<le> S \<Longrightarrow> chunks_of N S = 1"
proof -
  assume N: "0 < N" and le: "N \<le> S"
  have "S \<le> N + S - 1" "N + S - 1 < 2 * S" using N le by linarith+
  then have "(N + S - 1) div S = 1"
    by (intro div_nat_eqI) simp_all
  then show ?thesis by (simp add: chunks_of_def)
qed

subsection \<open>The dispatcher: one call for a generator without stream count\<close>

text \<open>
  C8, as the code has it. Take a bit generator object whose \<open>state_size()\<close> is 0. If it is
  one of the concrete generators, a dispatch made on its device with kernel arguments that
  fit the kernel's parameter types calls the kernel exactly once, with the pointer and the
  full element count of the output buffer, the generator's tag and state pointer and the
  current stream; the branch \<open>bsize == 0\<close> returns before \<open>(out.size + bsize - 1) // bsize\<close>
  is reached, so nothing is divided by zero. Otherwise no kernel is called and the world
  stays as it was: on another device the dispatch raises \<open>RuntimeError\<close>, with an argument
  that does not fit \<open>OverflowError\<close>, and on an instance of the base class \<open>BitGenerator\<close>,
  which has no \<open>state()\<close>, \<open>AttributeError\<close>.
\<close>

theorem stateless_dispatch:
  assumes S: "object_state_size obj = 0"
    and l: "l = call_of func (bg_generator g) (data_ptr (bg_state g)) (data_ptr out)
                  (nd_size out) (w_stream w)"
  shows
    "(\<forall>b. obj = BitGenerator b \<longrightarrow>
        launch_distribution_kernel_on obj func out w = (Inl AttributeError, w))
     \<and> (obj = CuRAND g \<longrightarrow>
          launch_distribution_kernel_on obj func out w =
            (if w_device w \<noteq> bg_current_device g then (Inl RuntimeError, w)
             else if \<not> fits func then (Inl OverflowError, w)
             else (Inr (), run_kernel l w)))
     \<and> w_launches (run_kernel l w) = w_launches w @ [l]
     \<and> l_out l = data_ptr out \<and> l_size l = nd_size out
     \<and> l_generator l = bg_generator g \<and> l_state l = data_ptr (bg_state g)
     \<and> l_stream l = w_stream w"
proof (intro conjI allI impI)
  fix b assume "obj = BitGenerator b"
  then show "launch_distribution_kernel_on obj func out w = (Inl AttributeError, w)"
    by (simp add: launch_distribution_kernel_on_def)
next
  assume o: "obj = CuRAND g"
  then have "bg_size g = 0" using S by (simp add: object_state_size_def state_size_def)
  then show "launch_distribution_kernel_on obj func out w =
            (if w_device w \<noteq> bg_current_device g then (Inl RuntimeError, w)
             else if \<not> fits func then (Inl OverflowError, w)
             else (Inr (), run_kernel l w))"
    by (simp add: o launch_distribution_kernel_on_def launch_distribution_kernel_eq l)
qed (simp_all add: l run_kernel_def)

text \<open>
  The base class; a generator of 0 streams filling 5 doubles, one call for all 5; the same
  on device 1; and the same with a negative width for the 32-bit interval kernel.
\<close>

theorem stateless_dispatch_witness:
  "object_state_size ex_base = 0 \<and> object_state_size (CuRAND (ex_generator 0)) = 0
   \<and> launch_distribution_kernel_on ex_base exponential (ex_buffer 5) ex_world
       = (Inl AttributeError, ex_world)
   \<and> launch_distribution_kernel_on (CuRAND (ex_generator 0)) exponential (ex_buffer 5) ex_world
       = (Inr (), run_kernel (Exponential CURAND_XOR_WOW 1024 4096 5 7) ex_world)
   \<and> w_launches (run_kernel (Exponential CURAND_XOR_WOW 1024 4096 5 7) ex_world)
       = [Exponential CURAND_XOR_WOW 1024 4096 5 7]
   \<and> launch_distribution_kernel_on (CuRAND (ex_generator 0)) exponential (ex_buffer 5)
        (ex_world\<lparr>w_device := 1\<rparr>) = (Inl RuntimeError, ex_world\<lparr>w_device := 1\<rparr>)
   \<and> launch_distribution_kernel_on (CuRAND (ex_generator 0)) (interval_32 (- 1) 1) (ex_buffer 5)
        ex_world = (Inl OverflowError, ex_world)"
proof -
  have b: "object_state_size ex_base = 0"
    by (simp add: object_state_size_def ex_base_def)
  have c: "object_state_size (CuRAND (ex_generator 0)) = 0"
    by (simp add: object_state_size_def state_size_def ex_generator_def)
  have eb: "ex_base = BitGenerator \<lparr>bb_lock = Unlocked, bb_seed_seq = None, bb_current_device = 0\<rparr>"
    by (simp add: ex_base_def)
  have call: "Exponential (bg_generator (ex_generator 0))
                (data_ptr (bg_state (ex_generator 0))) (data_ptr (ex_buffer 5))
                (nd_size (ex_buffer 5)) (w_stream ex_world)
              = Exponential CURAND_XOR_WOW 1024 4096 5 7"
    by (simp add: ex_generator_def ex_buffer_def ex_world_def nd_size_def)
  have dev: "w_device ex_world = bg_current_device (ex_generator 0)"
    "w_device (ex_world\<lparr>w_device := 1\<rparr>) \<noteq> bg_current_device (ex_generator 0)"
    by (simp_all add: ex_generator_def ex_world_def)
  have unfit: "\<not> fits (interval_32 (- 1) 1)" "fits exponential" by simp_all
  have "w_launches ex_world = []" by (simp add: ex_world_def)
  note e = this
  from stateless_dispatch [where func = exponential and g = "ex_generator 0"
      and out = "ex_buffer 5" and w = ex_world, OF b refl, THEN conjunct1, rule_format, OF eb]
  have r1: "launch_distribution_kernel_on ex_base exponential (ex_buffer 5) ex_world
       = (Inl AttributeError, ex_world)" .
  note t = stateless_dispatch [where func = exponential and g = "ex_generator 0"
      and out = "ex_buffer 5" and w = ex_world, OF c refl]
  from t [THEN conjunct2, THEN conjunct1, rule_format, OF refl] dev unfit
  have r2: "launch_distribution_kernel_on (CuRAND (ex_generator 0)) exponential (ex_buffer 5)
      ex_world = (Inr (), run_kernel (Exponential CURAND_XOR_WOW 1024 4096 5 7) ex_world)"
    by (simp add: call)
  from t [THEN conjunct2, THEN conjunct2, THEN conjunct1] e
  have r3: "w_launches (run_kernel (Exponential CURAND_XOR_WOW 1024 4096 5 7) ex_world)
       = [Exponential CURAND_XOR_WOW 1024 4096 5 7]"
    by (simp add: call)
  from stateless_dispatch [where func = exponential and g = "ex_generator 0"
      and out = "ex_buffer 5" and w = "ex_world\<lparr>w_device := 1\<rparr>", OF c refl,
      THEN conjunct2, THEN conjunct1, rule_format, OF refl] dev
  have r4: "launch_distribution_kernel_on (CuRAND (ex_generator 0)) exponential (ex_buffer 5)
        (ex_world\<lparr>w_device := 1\<rparr>) = (Inl RuntimeError, ex_world\<lparr>w_device := 1\<rparr>)"
    by simp
  from stateless_dispatch [where func = "interval_32 (- 1) 1" and g = "ex_generator 0"
      and out = "ex_buffer 5" and w = ex_world, OF c refl,
      THEN conjunct2, THEN conjunct1, rule_format, OF refl] dev unfit
  have r5: "launch_distribution_kernel_on (CuRAND (ex_generator 0)) (interval_32 (- 1) 1)
      (ex_buffer 5) ex_world = (Inl OverflowError, ex_world)"
    by simp
  show ?thesis by (intro conjI b c r1 r2 r3 r4 r5)
qed

text \<open>
  C8 as stated fails: with stream count 0, a dispatch on an instance of the base class
  raises \<open>AttributeError\<close>, and a dispatch on device 1 with a generator of device 0 raises
  \<open>RuntimeError\<close>; neither calls the kernel.
\<close>

theorem stateless_dispatch_counterexample:
  "object_state_size ex_base = 0
   \<and> fst (launch_distribution_kernel_on ex_base exponential (ex_buffer 5) ex_world)
       = Inl AttributeError
   \<and> w_launches (snd (launch_distribution_kernel_on ex_base exponential (ex_buffer 5) ex_world))
       = []
   \<and> object_state_size (CuRAND (ex_generator 0)) = 0
   \<and> fst (launch_distribution_kernel_on (CuRAND (ex_generator 0)) exponential (ex_buffer 5)
        (ex_world\<lparr>w_device := 1\<rparr>)) = Inl RuntimeError
   \<and> w_launches (snd (launch_distribution_kernel_on (CuRAND (ex_generator 0)) exponential
        (ex_buffer 5) (ex_world\<lparr>w_device := 1\<rparr>))) = []"
  by (simp add: object_state_size_def state_size_def launch_distribution_kernel_on_def
      launch_distribution_kernel_eq ex_base_def ex_generator_def ex_world_def)

subsection \<open>The dispatcher: chunks\<close>

text \<open>
  What the chunk loop does, whatever element counts it passes. For a one-dimensional output
  buffer of \<open>N \<ge> 0\<close> elements and a generator of \<open>S > 0\<close> streams whose state lives on the
  active device, with kernel arguments that fit, the dispatcher succeeds and issues
  \<open>ceil(N / S)\<close> kernel calls (the number \<open>c\<close> with \<open>N \<le> c * S < N + S\<close>), in the order of
  the index \<open>i = 0, 1, ...\<close>, all with the same kernel arguments, tag, state pointer and
  stream; call \<open>i\<close> is given the address of element \<open>i * S\<close> of the buffer; the index
  ranges of the calls together are \<open>[0, N)\<close>; and for \<open>0 < N \<le> S\<close> there is exactly one
  call.
\<close>

lemma chunked_dispatch:
  assumes shp: "shape out = [N]" and S: "0 < state_size g"
    and dev: "w_device w = bg_current_device g" and fit: "fits func"
  shows "\<exists>ls. launch_distribution_kernel g func out w = (Inr (), run_all ls w)
      \<and> w_launches (run_all ls w) = w_launches w @ ls
      \<and> N \<le> length ls * state_size g \<and> length ls * state_size g < N + state_size g
      \<and> (\<forall>i<length ls. \<exists>n. ls ! i =
            call_of func (bg_generator g) (data_ptr (bg_state g))
              (elem_addr out (i * state_size g)) n (w_stream w))
      \<and> (\<Union>i<length ls. {i * state_size g ..< i * state_size g + l_size (ls ! i)}) = {0..<N}
      \<and> (0 < N \<and> N \<le> state_size g \<longrightarrow> length ls = 1)"
proof -
  let ?S = "bg_size g"
  let ?c = "chunks_of N ?S"
  let ?ls = "map (chunk_call func (bg_generator g) (data_ptr (bg_state g)) (w_stream w) out ?S)
               [0..<?c]"
  have S': "0 < ?S" using S by (simp add: state_size_def)
  have N: "nd_size out = N" using shp by (simp add: nd_size_def)
  have start: "i * ?S < N" if "i < ?c" for i
    using that S' chunk_start_less [of ?S i N] by (simp add: chunks_of_def)
  have nth: "?ls ! i = call_of func (bg_generator g) (data_ptr (bg_state g))
                 (elem_addr out (i * ?S)) (N - i * ?S) (w_stream w)" if "i < ?c" for i
    using that start [OF that] shp by (simp add: chunk_call_def Let_def min_def)
  have c0: "?c = 0" if "N = 0" using that S' by (simp add: chunks_of_def)
  have cpos: "0 < ?c" if "0 < N" using that S' by (simp add: chunks_of_def div_greater_zero_iff)
  have run: "launch_distribution_kernel g func out w = (Inr (), run_all ?ls w)"
    using dev S' fit shp N c0 by (simp add: launch_distribution_kernel_eq)
  have bounds: "N \<le> ?c * ?S \<and> ?c * ?S < N + ?S"
    using chunks_bounds [OF S', of N] by (simp add: chunks_of_def)
  have cover: "(\<Union>i<length ?ls. {i * ?S ..< i * ?S + l_size (?ls ! i)}) = {0..<N}"
  proof (cases "N = 0")
    case True
    then show ?thesis using c0 by simp
  next
    case False
    then have c: "0 < ?c" using cpos by simp
    have each: "{i * ?S ..< i * ?S + l_size (?ls ! i)} = {i * ?S ..< N}" if "i < ?c" for i
      using nth [OF that] start [OF that] by simp
    have "(\<Union>i<length ?ls. {i * ?S ..< i * ?S + l_size (?ls ! i)}) = (\<Union>i<?c. {i * ?S ..< N})"
      using each by simp
    also have "\<dots> = {0..<N}"
    proof
      show "(\<Union>i<?c. {i * ?S ..< N}) \<subseteq> {0..<N}" by auto
      show "{0..<N} \<subseteq> (\<Union>i<?c. {i * ?S ..< N})"
      proof
        fix x assume "x \<in> {0..<N}"
        then have "x \<in> {0 * ?S ..< N}" by simp
        then show "x \<in> (\<Union>i<?c. {i * ?S ..< N})" using c by blast
      qed
    qed
    finally show ?thesis .
  qed
  have one: "0 < N \<and> N \<le> ?S \<longrightarrow> length ?ls = 1"
    using chunks_of_one [of N ?S] by simp
  have nths: "\<forall>i<length ?ls. \<exists>n. ?ls ! i =
            call_of func (bg_generator g) (data_ptr (bg_state g))
              (elem_addr out (i * ?S)) n (w_stream w)"
    using nth by auto
  have len: "length ?ls = ?c" by simp
  have app: "w_launches (run_all ?ls w) = w_launches w @ ?ls" by simp
  show ?thesis
    unfolding state_size_def
    by (intro exI [of _ ?ls] conjI run app cover one nths)
      (use bounds in \<open>simp_all only: len\<close>)
qed

text \<open>Two streams: 5 elements take 3 calls, 2 elements take one.\<close>

lemma chunked_dispatch_example:
  "shape (ex_buffer 5) = [5] \<and> shape (ex_buffer 2) = [2] \<and> 0 < state_size (ex_generator 2)
   \<and> w_device ex_world = bg_current_device (ex_generator 2) \<and> fits exponential
   \<and> length (w_launches (snd (launch_distribution_kernel (ex_generator 2) exponential
        (ex_buffer 5) ex_world))) = 3
   \<and> length (w_launches (snd (launch_distribution_kernel (ex_generator 2) exponential
        (ex_buffer 2) ex_world))) = 1"
proof -
  have h5: "shape (ex_buffer 5) = [5]" and h2: "shape (ex_buffer 2) = [2]"
    by (simp_all add: ex_buffer_def)
  have hS: "0 < state_size (ex_generator 2)" and S2: "state_size (ex_generator 2) = 2"
    by (simp_all add: state_size_def ex_generator_def)
  have hd: "w_device ex_world = bg_current_device (ex_generator 2)"
    by (simp add: ex_world_def ex_generator_def)
  have hf: "fits exponential" by simp
  have e: "w_launches ex_world = []" by (simp add: ex_world_def)
  from chunked_dispatch [OF h5 hS hd hf]
  obtain ls where "launch_distribution_kernel (ex_generator 2) exponential (ex_buffer 5) ex_world
        = (Inr (), run_all ls ex_world)"
    and "5 \<le> length ls * state_size (ex_generator 2)"
    and "length ls * state_size (ex_generator 2) < 5 + state_size (ex_generator 2)"
    by blast
  then have a: "length (w_launches (snd (launch_distribution_kernel (ex_generator 2) exponential
        (ex_buffer 5) ex_world))) = 3"
    using e S2 by simp
  from chunked_dispatch [OF h2 hS hd hf]
  obtain ms where "launch_distribution_kernel (ex_generator 2) exponential (ex_buffer 2) ex_world
        = (Inr (), run_all ms ex_world)"
    and "0 < (2::nat) \<and> 2 \<le> state_size (ex_generator 2) \<longrightarrow> length ms = 1"
    by blast
  then have b: "length (w_launches (snd (launch_distribution_kernel (ex_generator 2) exponential
        (ex_buffer 2) ex_world))) = 1"
    using e S2 by simp
  show ?thesis using h5 h2 hS hd hf a b by simp
qed

text \<open>
  C1. With two streams and a buffer of 3 doubles the claim asks for two calls, of
  \<open>min(2, 3) = 2\<close> elements from element 0 and of \<open>min(2, 1) = 1\<close> element from element 2,
  on ranges that do not overlap. The code issues two calls, from elements 0 and 2 (element
  2 lies at address 4112), of 3 elements and of 1 element: the first call is given more
  elements than the generator has streams, and element 2 is written by both. The view
  \<open>out[i*bsize:]\<close> has no upper bound, while the comment above the loop says that the
  generator "might only have state for a few number of threads" and that the filling is
  split "in several chunks".
\<close>

theorem chunked_dispatch_overlap:
  "state_size (ex_generator 2) = 2 \<and> shape (ex_buffer 3) = [3]
   \<and> launch_distribution_kernel (ex_generator 2) exponential (ex_buffer 3) ex_world
       = (Inr (), run_all [Exponential CURAND_XOR_WOW 1024 4096 3 7,
                           Exponential CURAND_XOR_WOW 1024 4112 1 7] ex_world)
   \<and> w_launches (snd (launch_distribution_kernel (ex_generator 2) exponential (ex_buffer 3)
        ex_world))
       = [Exponential CURAND_XOR_WOW 1024 4096 3 7, Exponential CURAND_XOR_WOW 1024 4112 1 7]
   \<and> elem_addr (ex_buffer 3) 2 = 4112"
  by (simp add: launch_distribution_kernel_eq ex_generator_def ex_buffer_def ex_world_def
      nd_size_def chunks_of_def chunk_call_def elem_addr_def upt_rec run_kernel_def
      state_size_def)

subsection \<open>What a dispatch adds to the world\<close>

lemma snd_launch_distribution_kernel:
  "snd (launch_distribution_kernel g func out w) = run_all (issued g func out w) w"
  by (simp add: launch_distribution_kernel_eq issued_def)

lemma fst_launch_distribution_kernel:
  "fst (launch_distribution_kernel g func out w) =
     (if w_device w \<noteq> bg_current_device g then Inl RuntimeError
      else if 0 < bg_size g \<and> nd_size out = 0 then Inr ()
      else if 0 < bg_size g \<and> shape out = [] then Inl IndexError
      else if fits func then Inr () else Inl OverflowError)"
  by (simp add: launch_distribution_kernel_eq)

lemma issued_calls:
  "l \<in> set (issued g func out w) \<Longrightarrow>
   \<exists>p n. l = call_of func (bg_generator g) (data_ptr (bg_state g)) p n (w_stream w)"
  by (auto simp: issued_def chunk_call_def Let_def split: if_splits)

lemma issued_error:
  "fst (launch_distribution_kernel g func out w) = Inl e \<Longrightarrow> issued g func out w = []"
  by (auto simp: fst_launch_distribution_kernel issued_def split: if_splits)

lemma issued_cong:
  "w_device w' = w_device w \<Longrightarrow> w_stream w' = w_stream w \<Longrightarrow>
   issued g func out w' = issued g func out w"
  by (simp add: issued_def)

lemma new_launches_append [simp]: "w_launches w' = w_launches w @ ls \<Longrightarrow> new_launches w w' = ls"
  by (simp add: new_launches_def)

lemma ndarray_new_eq:
  "ndarray_new shp dt w =
     (\<lparr>shape = shp, dtype_of = dt, data_ptr = w_brk w\<rparr>,
      w\<lparr>w_brk := w_brk w + int (prod_list shp * itemsize dt),
        w_allocs := w_allocs w @ [(w_brk w, prod_list shp * itemsize dt)]\<rparr>)"
  by (simp add: ndarray_new_def Let_def)

lemma ndarray_new_fields [simp]:
  "fst (ndarray_new shp dt w) = \<lparr>shape = shp, dtype_of = dt, data_ptr = w_brk w\<rparr>"
  "w_launches (snd (ndarray_new shp dt w)) = w_launches w"
  "w_device (snd (ndarray_new shp dt w)) = w_device w"
  "w_stream (snd (ndarray_new shp dt w)) = w_stream w"
  "w_mem (snd (ndarray_new shp dt w)) = w_mem w"
  "w_kernels (snd (ndarray_new shp dt w)) = w_kernels w"
  "w_brk (snd (ndarray_new shp dt w)) = w_brk w + int (prod_list shp * itemsize dt)"
  "w_allocs (snd (ndarray_new shp dt w)) = w_allocs w @ [(w_brk w, prod_list shp * itemsize dt)]"
  by (simp_all add: ndarray_new_eq)

lemma add_scalar_fields [simp]:
  "fst (add_scalar low y w) = \<lparr>shape = shape y, dtype_of = dtype_of y, data_ptr = w_brk w\<rparr>"
  "w_launches (snd (add_scalar low y w)) = w_launches w"
  "w_device (snd (add_scalar low y w)) = w_device w"
  "w_stream (snd (add_scalar low y w)) = w_stream w"
  "w_kernels (snd (add_scalar low y w)) = w_kernels w"
  "w_allocs (snd (add_scalar low y w)) = w_allocs w @ [(w_brk w, nd_size y * itemsize (dtype_of y))]"
  by (simp_all add: add_scalar_def ndarray_new_eq nd_size_def split: prod.splits)

subsection \<open>integers: mask and width\<close>

lemma integers_mask_nonneg: "0 \<le> integers_mask d"
  by (simp add: integers_mask_def)

lemma integers_mask_le_iff: "integers_mask d \<le> 2 ^ k - 1 \<longleftrightarrow> \<bar>d\<bar> < 2 ^ k"
proof
  assume "integers_mask d \<le> 2 ^ k - 1"
  then have "(2::int) ^ bit_length d \<le> 2 ^ k" unfolding integers_mask_def by linarith
  then show "\<bar>d\<bar> < 2 ^ k" using abs_less_power_bit_length [of d] by linarith
next
  assume "\<bar>d\<bar> < 2 ^ k"
  then have "bit_length d \<le> k" by (rule bit_length_le)
  then have "(2::int) ^ bit_length d \<le> 2 ^ k" by (simp add: power_increasing)
  then show "integers_mask d \<le> 2 ^ k - 1" unfolding integers_mask_def by linarith
qed

lemma mask_as_uint64:
  "as_uint64 (integers_mask d) =
     (if \<bar>d\<bar> \<le> UINT64_MAX then Inr (integers_mask d) else Inl OverflowError)"
  using integers_mask_le_iff [of d 64] integers_mask_nonneg [of d]
  by (simp add: as_uint64_def UINT64_MAX_def)

lemma fits_32: "0 \<le> d \<Longrightarrow> d \<le> UINT32_MAX \<Longrightarrow> fits (interval_32 d (integers_mask d))"
  using integers_mask_le_iff [of d 32] integers_mask_nonneg [of d]
  by (simp add: UINT32_MAX_def)

lemma fits_64: "0 \<le> d \<Longrightarrow> d \<le> UINT64_MAX \<Longrightarrow> fits (interval_64 d (integers_mask d))"
  using integers_mask_le_iff [of d 64] integers_mask_nonneg [of d]
  by (simp add: UINT64_MAX_def)

text \<open>
  Every path through \<open>integers\<close>. The mask of a \<open>diff\<close> beyond 64 bits does not convert to
  \<open>uint64_t\<close>, so the test \<open>diff <= _UINT64_MAX\<close> is only reached with a \<open>diff\<close> that
  passes it.
\<close>

lemma integers_cases:
  "integers g low high sz dt endpoint w =
     (let d = integers_diff low high endpoint;
          y = sampled sz (width_of d) w;
          r = launch_distribution_kernel g (interval_of d) y
                (snd (ndarray_new (shape_arg sz) (width_of d) w))
      in if UINT64_MAX < \<bar>d\<bar> then (Inl OverflowError, w)
         else (case fst r of
                 Inl e \<Rightarrow> (Inl e, snd r)
               | Inr _ \<Rightarrow> (Inr (fst (add_scalar low y (snd r))),
                            snd (add_scalar low y (snd r)))))"
proof -
  let ?d = "integers_diff low high endpoint"
  consider (big) "UINT64_MAX < \<bar>?d\<bar>"
    | (w32) "\<bar>?d\<bar> \<le> UINT64_MAX" "?d \<le> UINT32_MAX"
    | (w64) "\<bar>?d\<bar> \<le> UINT64_MAX" "UINT32_MAX < ?d"
    by linarith
  then show ?thesis
  proof cases
    case big
    then show ?thesis by (simp add: integers_def mask_as_uint64 Let_def)
  next
    case w32
    then show ?thesis
      by (simp add: integers_def mask_as_uint64 Let_def interval_of_def width_of_def
            sampled_def split_beta split: sum.splits)
  next
    case w64
    then have "?d \<le> UINT64_MAX" by linarith
    then show ?thesis using w64
      by (simp add: integers_def mask_as_uint64 Let_def interval_of_def width_of_def
            sampled_def split_beta split: sum.splits)
  qed
qed

lemma integers_launches:
  "w_launches (snd (integers g low high sz dt endpoint w)) =
     w_launches w @
       (if UINT64_MAX < \<bar>integers_diff low high endpoint\<bar> then []
        else issued g (interval_of (integers_diff low high endpoint))
               (sampled sz (width_of (integers_diff low high endpoint)) w) w)"
proof -
  let ?d = "integers_diff low high endpoint"
  let ?y = "sampled sz (width_of ?d) w"
  let ?w1 = "snd (ndarray_new (shape_arg sz) (width_of ?d) w)"
  let ?r = "launch_distribution_kernel g (interval_of ?d) ?y ?w1"
  have i: "issued g (interval_of ?d) ?y ?w1 = issued g (interval_of ?d) ?y w"
    by (rule issued_cong) simp_all
  have s: "snd ?r = run_all (issued g (interval_of ?d) ?y w) ?w1"
    using snd_launch_distribution_kernel [of g "interval_of ?d" ?y ?w1] i by simp
  show ?thesis
    by (cases "fst ?r") (simp_all add: integers_cases Let_def s)
qed





subsection \<open>Device memory\<close>

lemma itemsize_pos [simp]: "0 < itemsize dt"
  by (cases dt) simp_all

lemma length_elems [simp]: "length (elems a m) = nd_size a"
  by (simp add: elems_def)

lemma nth_elems: "k < nd_size a \<Longrightarrow> elems a m ! k = m (elem_addr a k)"
  by (simp add: elems_def)

lemma store_elems_hit:
  "k < length vs \<Longrightarrow> store_elems a vs m (elem_addr a k) = vs ! k"
  by (simp add: store_elems_def elem_addr_def Let_def)

lemma store_elems_below:
  "addr < data_ptr a \<Longrightarrow> store_elems a vs m addr = m addr"
  by (simp add: store_elems_def Let_def)

lemma elems_store_elems:
  "length vs = nd_size a \<Longrightarrow> elems a (store_elems a vs m) = vs"
  by (rule nth_equalityI) (simp_all add: nth_elems store_elems_hit)

lemma elem_addr_less:
  "k < nd_size a \<Longrightarrow> elem_addr a k < data_ptr a + int (nd_size a * itemsize (dtype_of a))"
  by (simp add: elem_addr_def)

lemma elems_store_elems_other:
  "data_ptr a + int (nd_size a * itemsize (dtype_of a)) \<le> data_ptr b \<Longrightarrow>
   elems a (store_elems b vs m) = elems a m"
proof (rule nth_equalityI)
  show "length (elems a (store_elems b vs m)) = length (elems a m)" by simp
next
  fix k assume "k < length (elems a (store_elems b vs m))"
  then have k: "k < nd_size a" by simp
  assume le: "data_ptr a + int (nd_size a * itemsize (dtype_of a)) \<le> data_ptr b"
  have "elem_addr a k < data_ptr b" using elem_addr_less [OF k] le by linarith
  then show "elems a (store_elems b vs m) ! k = elems a m ! k"
    using k by (simp add: nth_elems store_elems_below)
qed

lemma store_elems_miss:
  "\<forall>k < length vs. a \<noteq> elem_addr d k \<Longrightarrow> store_elems d vs m a = m a"
proof -
  assume miss: "\<forall>k < length vs. a \<noteq> elem_addr d k"
  let ?off = "a - data_ptr d"
  let ?isz = "int (itemsize (dtype_of d))"
  have "\<not> (0 \<le> ?off \<and> ?off mod ?isz = 0 \<and> ?off div ?isz < int (length vs))"
  proof
    assume c: "0 \<le> ?off \<and> ?off mod ?isz = 0 \<and> ?off div ?isz < int (length vs)"
    let ?k = "nat (?off div ?isz)"
    have nn: "0 \<le> ?off div ?isz" using c by (simp add: pos_imp_zdiv_nonneg_iff)
    then have k: "?k < length vs" using c by linarith
    have "?off = ?isz * (?off div ?isz) + ?off mod ?isz" by (rule mult_div_mod_eq [symmetric])
    then have "?off = ?isz * (?off div ?isz)" using c by linarith
    then have "a = data_ptr d + int (?k * itemsize (dtype_of d))" using nn by (simp add: mult.commute)
    then have "a = elem_addr d ?k" by (simp add: elem_addr_def)
    then show False using miss k by blast
  qed
  then show ?thesis unfolding store_elems_def Let_def by (simp only: if_False)
qed

lemma ravel_unravel:
  "k < prod_list ds \<Longrightarrow>
   ravel ds (map2 (\<lambda>s i. if s = 1 then 0 else i) ds (unravel ds k)) = k"
proof (induction ds arbitrary: k)
  case Nil
  then show ?case by simp
next
  case (Cons d ds)
  let ?P = "prod_list ds"
  from Cons.prems have P: "0 < ?P" by (cases "?P = 0") simp_all
  then have "k mod ?P < ?P" by simp
  then have ih: "ravel ds (map2 (\<lambda>s i. if s = 1 then 0 else i) ds (unravel ds (k mod ?P)))
                   = k mod ?P"
    by (rule Cons.IH)
  have "d = 1 \<Longrightarrow> k div ?P = 0" using Cons.prems by simp
  then have "(if d = 1 then 0 else k div ?P) = k div ?P" by simp
  then show ?case using ih by simp
qed

lemma source_index_same: "k < prod_list ds \<Longrightarrow> source_index ds ds k = k"
  unfolding source_index_def using ravel_unravel [of k ds] by simp

lemma broadcastable_same [simp]: "broadcastable ds ds"
  by (simp add: broadcastable_def list_all2_same)

lemma upt_3: "[0..<3] = [0, 1, 2]"
  by (simp add: upt_rec)

lemma upt_6: "[0..<6] = [0, 1, 2, 3, 4, 5]"
  by (simp add: upt_rec)

lemma w_mem_run_all: "w_mem (run_all ls w) = fold (w_kernels w) ls (w_mem w)"
  by (induction ls arbitrary: w) (simp_all add: run_kernel_def)

lemma new_allocs_append [simp]: "w_allocs w' = w_allocs w @ xs \<Longrightarrow> new_allocs w w' = xs"
  by (simp add: new_allocs_def)

subsection \<open>standard\_exponential and beta\<close>

lemma standard_exponential_cases:
  "standard_exponential g sz dt method out w =
     (let y = sampled sz dt w;
          r = launch_distribution_kernel g exponential y (snd (ndarray_new (shape_arg sz) dt w))
      in if method = ''zig'' then (Inl NotImplementedError, w)
         else (case fst r of
                 Inl e \<Rightarrow> (Inl e, snd r)
               | Inr _ \<Rightarrow>
                   (case out of
                      None \<Rightarrow> (Inr y, snd r)
                    | Some dst \<Rightarrow>
                        if broadcastable (shape_arg sz) (shape dst)
                        then (Inr dst,
                              (snd r)\<lparr>w_mem := store_elems dst
                                 (map (\<lambda>k. w_mem (snd r)
                                         (elem_addr y (source_index (shape_arg sz) (shape dst) k)))
                                    [0..<nd_size dst])
                                 (w_mem (snd r))\<rparr>)
                        else (Inl ValueError, snd r))))"
  by (simp add: standard_exponential_def Let_def sampled_def split_beta assign_all_def
      split: sum.splits option.splits)

lemma beta_sample_cases:
  "beta_sample g a b sz dt w =
     (let y = sampled sz dt w;
          r = launch_distribution_kernel g (beta a b) y (snd (ndarray_new (shape_arg sz) dt w))
      in (case fst r of Inl e \<Rightarrow> (Inl e, snd r) | Inr _ \<Rightarrow> (Inr y, snd r)))"
  by (simp add: beta_sample_def Let_def sampled_def split_beta split: sum.splits)

lemma standard_exponential_launches:
  "w_launches (snd (standard_exponential g sz dt method out w)) =
     w_launches w @ (if method = ''zig'' then [] else issued g exponential (sampled sz dt w) w)"
proof -
  let ?y = "sampled sz dt w"
  let ?w1 = "snd (ndarray_new (shape_arg sz) dt w)"
  let ?r = "launch_distribution_kernel g exponential ?y ?w1"
  have "issued g exponential ?y ?w1 = issued g exponential ?y w"
    by (rule issued_cong) simp_all
  then have s: "snd ?r = run_all (issued g exponential ?y w) ?w1"
    using snd_launch_distribution_kernel [of g exponential ?y ?w1] by simp
  show ?thesis
    by (simp add: standard_exponential_cases Let_def s split: sum.splits option.splits)
qed

text \<open>
  C5. \<open>standard_exponential\<close> with the method \<open>'zig'\<close> (the Ziggurat method, "ziggurat" in
  the spec) raises \<open>NotImplementedError\<close> and leaves the world as it was: no buffer is
  allocated and no kernel is called, whatever the size, the element type and the
  destination. With any method, every kernel call the operation issues is a call of the
  exponential kernel, whose inversion sampling is the only one there is.
\<close>

theorem ziggurat_unsupported:
  "standard_exponential g sz dt ''zig'' out w = (Inl NotImplementedError, w)
   \<and> (\<forall>l \<in> set (new_launches w (snd (standard_exponential g sz dt method out w))).
        \<exists>p n. l = Exponential (bg_generator g) (data_ptr (bg_state g)) p n (w_stream w))"
proof
  show "standard_exponential g sz dt ''zig'' out w = (Inl NotImplementedError, w)"
    by (simp add: standard_exponential_def)
next
  have n: "new_launches w (snd (standard_exponential g sz dt method out w)) =
          (if method = ''zig'' then [] else issued g exponential (sampled sz dt w) w)"
    by (rule new_launches_append [OF standard_exponential_launches])
  show "\<forall>l \<in> set (new_launches w (snd (standard_exponential g sz dt method out w))).
        \<exists>p n. l = Exponential (bg_generator g) (data_ptr (bg_state g)) p n (w_stream w)"
  proof
    fix l assume "l \<in> set (new_launches w (snd (standard_exponential g sz dt method out w)))"
    then have "l \<in> set (issued g exponential (sampled sz dt w) w)"
      using n by (simp split: if_splits)
    then show "\<exists>p n. l = Exponential (bg_generator g) (data_ptr (bg_state g)) p n (w_stream w)"
      using issued_calls [of l g exponential "sampled sz dt w" w] by simp
  qed
qed

text \<open>The calls of \<open>standard_exponential(3)\<close> on a generator of two streams.\<close>

lemma ex_exponential_launches:
  "new_launches ex_world
     (snd (standard_exponential (ex_generator 2) (Some [3]) float64 ''inv'' out ex_world))
   = [Exponential CURAND_XOR_WOW 1024 4096 3 7, Exponential CURAND_XOR_WOW 1024 4112 1 7]"
  by (simp add: new_launches_append [OF standard_exponential_launches] issued_def
      sampled_def shape_arg_def ex_generator_def ex_world_def nd_size_def chunks_of_def
      chunk_call_def elem_addr_def upt_rec del: new_launches_append)

theorem ziggurat_unsupported_witness:
  "Exponential CURAND_XOR_WOW 1024 4096 3 7
     \<in> set (new_launches ex_world
          (snd (standard_exponential (ex_generator 2) (Some [3]) float64 ''inv'' None ex_world)))
   \<and> bg_generator (ex_generator 2) = CURAND_XOR_WOW
   \<and> data_ptr (bg_state (ex_generator 2)) = 1024 \<and> w_stream ex_world = 7"
proof -
  have m: "Exponential CURAND_XOR_WOW 1024 4096 3 7
     \<in> set (new_launches ex_world
          (snd (standard_exponential (ex_generator 2) (Some [3]) float64 ''inv'' None ex_world)))"
    by (simp add: ex_exponential_launches)
  from ziggurat_unsupported [THEN conjunct2, rule_format, OF m]
  show ?thesis using m by auto
qed

subsection \<open>The device guard\<close>

text \<open>
  C4, as the code has it. \<open>_check_device\<close> raises \<open>RuntimeError\<close> exactly when the active
  device is not the one recorded at construction, and does nothing otherwise; \<open>state()\<close>
  then returns no pointer. On another device the dispatcher fails with that error before
  its first kernel call and leaves the world as it was. A sampling method whose own argument
  checks pass (\<open>method\<close> other than \<open>'zig'\<close>; a \<open>diff\<close> whose mask fits 64 bits) fails with
  that error too, with no kernel called and no memory written, but after it has allocated
  its output buffer: each of the three methods creates the buffer before it enters the
  dispatcher, where the guard is.
\<close>

theorem cross_device_access:
  "check_device g w = (if w_device w \<noteq> bg_current_device g then Inl RuntimeError else Inr ())
   \<and> state g w = (if w_device w \<noteq> bg_current_device g then Inl RuntimeError
                  else Inr (data_ptr (bg_state g)))
   \<and> (w_device w \<noteq> bg_current_device g \<longrightarrow>
        launch_distribution_kernel g func buf w = (Inl RuntimeError, w)
        \<and> (method \<noteq> ''zig'' \<longrightarrow>
             standard_exponential g sz dt method out w =
               (Inl RuntimeError, snd (ndarray_new (shape_arg sz) dt w)))
        \<and> beta_sample g a b sz dt w = (Inl RuntimeError, snd (ndarray_new (shape_arg sz) dt w))
        \<and> (\<bar>integers_diff low high endpoint\<bar> \<le> UINT64_MAX \<longrightarrow>
             integers g low high sz dt endpoint w =
               (Inl RuntimeError,
                snd (ndarray_new (shape_arg sz) (width_of (integers_diff low high endpoint)) w))))
   \<and> w_launches (snd (ndarray_new shp dt w)) = w_launches w
   \<and> w_mem (snd (ndarray_new shp dt w)) = w_mem w
   \<and> w_allocs (snd (ndarray_new shp dt w)) = w_allocs w @ [(w_brk w, prod_list shp * itemsize dt)]"
  by (simp add: check_device_def state_def launch_distribution_kernel_eq
      standard_exponential_cases beta_sample_cases integers_cases Let_def)

theorem cross_device_access_witness:
  "w_device (ex_world\<lparr>w_device := 1\<rparr>) \<noteq> bg_current_device (ex_generator 2)
   \<and> ''inv'' \<noteq> ''zig'' \<and> \<bar>integers_diff 0 10 False\<bar> \<le> UINT64_MAX
   \<and> state (ex_generator 2) (ex_world\<lparr>w_device := 1\<rparr>) = Inl RuntimeError
   \<and> fst (standard_exponential (ex_generator 2) (Some [100]) float64 ''inv'' None
        (ex_world\<lparr>w_device := 1\<rparr>)) = Inl RuntimeError
   \<and> fst (integers (ex_generator 2) 0 10 (Some [5]) int32 False (ex_world\<lparr>w_device := 1\<rparr>))
       = Inl RuntimeError
   \<and> state (ex_generator 2) ex_world = Inr 1024"
proof -
  have d: "w_device (ex_world\<lparr>w_device := 1\<rparr>) \<noteq> bg_current_device (ex_generator 2)"
    by (simp add: ex_generator_def)
  have z: "''inv'' \<noteq> ''zig''" by simp
  have i: "\<bar>integers_diff 0 10 False\<bar> \<le> UINT64_MAX"
    by (simp add: integers_diff_def UINT64_MAX_def)
  have e: "w_device ex_world = bg_current_device (ex_generator 2)"
    by (simp add: ex_generator_def ex_world_def)
  note t = cross_device_access [of "ex_generator 2" "ex_world\<lparr>w_device := 1\<rparr>" exponential
      "ex_buffer 3" "''inv''" "Some [100]" float64 None 0 0 0 10 False]
  note u = cross_device_access [of "ex_generator 2" "ex_world\<lparr>w_device := 1\<rparr>" exponential
      "ex_buffer 3" "''inv''" "Some [5]" int32 None 0 0 0 10 False]
  note v = cross_device_access [of "ex_generator 2" ex_world, THEN conjunct2, THEN conjunct1]
  have a: "state (ex_generator 2) (ex_world\<lparr>w_device := 1\<rparr>) = Inl RuntimeError"
    using t [THEN conjunct2, THEN conjunct1] d by simp
  have b: "fst (standard_exponential (ex_generator 2) (Some [100]) float64 ''inv'' None
        (ex_world\<lparr>w_device := 1\<rparr>)) = Inl RuntimeError"
    using t [THEN conjunct2, THEN conjunct2, THEN conjunct1] d z by simp
  have c: "fst (integers (ex_generator 2) 0 10 (Some [5]) int32 False (ex_world\<lparr>w_device := 1\<rparr>))
       = Inl RuntimeError"
    using u [THEN conjunct2, THEN conjunct2, THEN conjunct1] d i by simp
  have f: "state (ex_generator 2) ex_world = Inr 1024"
    using v e by (simp add: ex_generator_def)
  show ?thesis using d z i a b c f by simp
qed

text \<open>
  C4 as stated fails: on device 1, with a generator of device 0, \<open>standard_exponential(100)\<close>
  raises \<open>RuntimeError\<close> with the 800 bytes of its output buffer allocated.
\<close>

theorem cross_device_access_counterexample:
  "fst (standard_exponential (ex_generator 2) (Some [100]) float64 ''inv'' None
          (ex_world\<lparr>w_device := 1\<rparr>)) = Inl RuntimeError
   \<and> w_allocs (ex_world\<lparr>w_device := 1\<rparr>) = [(1024, 96)]
   \<and> w_allocs (snd (standard_exponential (ex_generator 2) (Some [100]) float64 ''inv'' None
          (ex_world\<lparr>w_device := 1\<rparr>))) = [(1024, 96), (4096, 800)]"
  by (simp add: standard_exponential_cases Let_def launch_distribution_kernel_eq
      ex_generator_def ex_world_def shape_arg_def)

subsection \<open>The destination of standard\_exponential\<close>

text \<open>
  C6, as the code has it. Compare a call of \<open>standard_exponential\<close> with a destination
  \<open>dst\<close> and the same call without. If the call without destination fails, so does the
  other, in the same way. If it returns the buffer \<open>y\<close>, then \<open>y\<close> is fresh, the one buffer
  allocated during the call, and the call with destination issues the same kernel calls and
  allocates nothing more. When \<open>y\<close> can be broadcast to the shape of \<open>dst\<close>, it returns
  \<open>dst\<close> itself; each element of \<open>dst\<close> then holds the sampled value of the element of \<open>y\<close>
  that broadcasting assigns to it, memory outside \<open>dst\<close> is as the sampling left it, and
  for a destination of the shape of \<open>y\<close> the values of \<open>dst\<close> are those of \<open>y\<close>, in order.
  When \<open>y\<close> cannot be broadcast to the shape of \<open>dst\<close>, the assignment raises
  \<open>ValueError\<close> after the sampling, and nothing is returned.
\<close>

theorem destination_returned:
  assumes N: "N = standard_exponential g sz dt method None w"
    and R: "R = standard_exponential g sz dt method (Some dst) w"
  shows
    "(\<forall>e. fst N = Inl e \<longrightarrow> R = N)
     \<and> (\<forall>y. fst N = Inr y \<longrightarrow>
          y = sampled sz dt w
          \<and> new_allocs w (snd N) = [(data_ptr y, nd_size y * itemsize dt)]
          \<and> (broadcastable (shape y) (shape dst) \<longrightarrow>
               fst R = Inr dst
               \<and> (\<forall>k < nd_size dst.
                     w_mem (snd R) (elem_addr dst k) =
                       w_mem (snd N) (elem_addr y (source_index (shape y) (shape dst) k)))
               \<and> (\<forall>a. (\<forall>k < nd_size dst. a \<noteq> elem_addr dst k) \<longrightarrow>
                     w_mem (snd R) a = w_mem (snd N) a)
               \<and> (shape dst = shape y \<longrightarrow> elems dst (w_mem (snd R)) = elems y (w_mem (snd N))))
          \<and> (\<not> broadcastable (shape y) (shape dst) \<longrightarrow> R = (Inl ValueError, snd N))
          \<and> w_launches (snd R) = w_launches (snd N)
          \<and> w_allocs (snd R) = w_allocs (snd N))"
proof (intro conjI allI impI)
  fix e assume "fst N = Inl e"
  then show "R = N"
    unfolding N R by (auto simp: standard_exponential_cases Let_def split: sum.splits if_splits)
next
  fix y assume y: "fst N = Inr y"
  let ?w1 = "snd (ndarray_new (shape_arg sz) dt w)"
  let ?r = "launch_distribution_kernel g exponential (sampled sz dt w) ?w1"
  from y have zig: "method \<noteq> ''zig''"
    unfolding N by (auto simp: standard_exponential_def)
  from y zig have ok: "fst ?r = Inr ()" and ys: "y = sampled sz dt w" and w2: "snd N = snd ?r"
    unfolding N by (auto simp: standard_exponential_cases Let_def split: sum.splits)
  show "y = sampled sz dt w" by (rule ys)
  have shp: "shape y = shape_arg sz" by (simp add: ys sampled_def)
  have allocs: "w_allocs (snd N) = w_allocs w @ [(w_brk w, prod_list (shape_arg sz) * itemsize dt)]"
    unfolding w2 by (simp add: snd_launch_distribution_kernel)
  show "new_allocs w (snd N) = [(data_ptr y, nd_size y * itemsize dt)]"
    using new_allocs_append [OF allocs] by (simp add: ys sampled_def nd_size_def)
  let ?vs = "map (\<lambda>k. w_mem (snd N) (elem_addr y (source_index (shape y) (shape dst) k)))
               [0..<nd_size dst]"
  have Rb: "R = (Inr dst, (snd N)\<lparr>w_mem := store_elems dst ?vs (w_mem (snd N))\<rparr>)"
    if "broadcastable (shape y) (shape dst)"
    using that zig ok unfolding R w2
    by (simp add: standard_exponential_cases Let_def shp ys [symmetric])
  have Rn: "R = (Inl ValueError, snd N)" if "\<not> broadcastable (shape y) (shape dst)"
    using that zig ok unfolding R w2
    by (simp add: standard_exponential_cases Let_def shp)
  show "w_launches (snd R) = w_launches (snd N)"
    using Rb Rn by (cases "broadcastable (shape y) (shape dst)") simp_all
  show "w_allocs (snd R) = w_allocs (snd N)"
    using Rb Rn by (cases "broadcastable (shape y) (shape dst)") simp_all
  {
    assume "\<not> broadcastable (shape y) (shape dst)"
    then show "R = (Inl ValueError, snd N)" by (rule Rn)
  }
  {
    assume b: "broadcastable (shape y) (shape dst)"
    show "fst R = Inr dst" using Rb [OF b] by simp
    have mem: "w_mem (snd R) = store_elems dst ?vs (w_mem (snd N))" using Rb [OF b] by simp
    {
      fix k assume k: "k < nd_size dst"
      then show "w_mem (snd R) (elem_addr dst k) =
                   w_mem (snd N) (elem_addr y (source_index (shape y) (shape dst) k))"
        unfolding mem by (simp add: store_elems_hit)
    }
    {
      fix a assume "\<forall>k < nd_size dst. a \<noteq> elem_addr dst k"
      then show "w_mem (snd R) a = w_mem (snd N) a"
        unfolding mem by (intro store_elems_miss) simp
    }
    {
      assume eq: "shape dst = shape y"
      show "elems dst (w_mem (snd R)) = elems y (w_mem (snd N))"
      proof (rule nth_equalityI)
        show "length (elems dst (w_mem (snd R))) = length (elems y (w_mem (snd N)))"
          using eq by (simp add: nd_size_def)
      next
        fix k assume "k < length (elems dst (w_mem (snd R)))"
        then have k: "k < nd_size dst" by simp
        then have ky: "k < nd_size y" using eq by (simp add: nd_size_def)
        have "source_index (shape y) (shape dst) k = k"
          using ky unfolding eq by (intro source_index_same) (simp add: nd_size_def)
        then show "elems dst (w_mem (snd R)) ! k = elems y (w_mem (snd N)) ! k"
          using k ky unfolding mem by (simp add: nth_elems store_elems_hit)
      qed
    }
  }
qed

text \<open>
  Three doubles sampled by the kernel that writes 10, 11, ...: the two chunks leave 10, 11,
  10. A destination of two rows of 3 receives them in each row, one of 3 doubles as they
  are.
\<close>

lemma ex_ramp_result:
  "fst (standard_exponential (ex_generator 2) (Some [3]) float64 ''inv'' None ex_ramp_world)
     = Inr (sampled (Some [3]) float64 ex_ramp_world)"
  by (simp add: standard_exponential_cases Let_def fst_launch_distribution_kernel
      sampled_def shape_arg_def ex_generator_def ex_ramp_world_def nd_size_def)

lemma ex_ramp_values:
  "map (\<lambda>j. w_mem (snd (standard_exponential (ex_generator 2) (Some [3]) float64 ''inv'' None
                 ex_ramp_world))
            (elem_addr (sampled (Some [3]) float64 ex_ramp_world) j)) [0, 1, 2] = [10, 11, 10]"
  by (simp add: standard_exponential_cases Let_def launch_distribution_kernel_eq
      sampled_def shape_arg_def ex_generator_def ex_ramp_world_def nd_size_def chunks_of_def
      chunk_call_def elem_addr_def upt_rec run_kernel_def ex_ramp_def ndarray_new_eq)

lemma ex_source_index:
  "map (source_index [3] [2, 3]) [0, 1, 2, 3, 4, 5] = [0, 1, 2, 0, 1, 2]"
  by (simp add: source_index_def)

theorem destination_returned_witness:
  "fst (standard_exponential (ex_generator 2) (Some [3]) float64 ''inv'' None ex_ramp_world)
     = Inr (sampled (Some [3]) float64 ex_ramp_world)
   \<and> broadcastable [3] (shape ex_rows) \<and> shape ex_destination = [3]
   \<and> fst (standard_exponential (ex_generator 2) (Some [3]) float64 ''inv'' (Some ex_rows)
        ex_ramp_world) = Inr ex_rows
   \<and> elems ex_rows
        (w_mem (snd (standard_exponential (ex_generator 2) (Some [3]) float64 ''inv''
           (Some ex_rows) ex_ramp_world))) = [10, 11, 10, 10, 11, 10]
   \<and> fst (standard_exponential (ex_generator 2) (Some [3]) float64 ''inv'' (Some ex_destination)
        ex_ramp_world) = Inr ex_destination
   \<and> elems ex_destination
        (w_mem (snd (standard_exponential (ex_generator 2) (Some [3]) float64 ''inv''
           (Some ex_destination) ex_ramp_world))) = [10, 11, 10]"
proof -
  let ?N = "standard_exponential (ex_generator 2) (Some [3]) float64 ''inv'' None ex_ramp_world"
  let ?y = "sampled (Some [3]) float64 ex_ramp_world"
  let ?R = "standard_exponential (ex_generator 2) (Some [3]) float64 ''inv'' (Some ex_rows)
              ex_ramp_world"
  let ?D = "standard_exponential (ex_generator 2) (Some [3]) float64 ''inv''
              (Some ex_destination) ex_ramp_world"
  have y: "fst ?N = Inr ?y" by (rule ex_ramp_result)
  have sy: "shape ?y = [3]" by (simp add: sampled_def shape_arg_def)
  have b: "broadcastable (shape ?y) (shape ex_rows)"
    by (simp add: sy ex_rows_def broadcastable_def)
  have d: "shape ex_destination = shape ?y" by (simp add: sy ex_destination_def)
  have bd: "broadcastable (shape ?y) (shape ex_destination)" by (simp add: d)
  have "elems ?y (w_mem (snd ?N)) = map (\<lambda>j. w_mem (snd ?N) (elem_addr ?y j)) [0, 1, 2]"
    by (simp only: elems_def nd_size_def sy prod_list.Cons prod_list.Nil mult_1_right upt_3)
  then have ey: "elems ?y (w_mem (snd ?N)) = [10, 11, 10]"
    by (simp only: ex_ramp_values)
  have v: "w_mem (snd ?N) (elem_addr ?y 0) = 10" "w_mem (snd ?N) (elem_addr ?y 1) = 11"
    "w_mem (snd ?N) (elem_addr ?y 2) = 10"
    using ex_ramp_values by simp_all
  note t = destination_returned [OF refl refl, of "ex_generator 2" "Some [3]" float64 "''inv''"
      ex_ramp_world ex_rows, THEN conjunct2, rule_format, OF y]
  note t' = t [THEN conjunct2, THEN conjunct2, THEN conjunct1, rule_format, OF b]
  have r1: "fst ?R = Inr ex_rows" using t' by simp
  have r2: "\<forall>k < nd_size ex_rows. w_mem (snd ?R) (elem_addr ex_rows k) =
              w_mem (snd ?N) (elem_addr ?y (source_index (shape ?y) (shape ex_rows) k))"
    using t' by simp
  have n6: "nd_size ex_rows = 6" by (simp add: nd_size_def ex_rows_def)
  have si: "source_index [3] [2, 3] 0 = 0" "source_index [3] [2, 3] 1 = 1"
    "source_index [3] [2, 3] 2 = 2" "source_index [3] [2, 3] 3 = 0"
    "source_index [3] [2, 3] 4 = 1" "source_index [3] [2, 3] 5 = 2"
    using ex_source_index by simp_all
  have sr: "shape ex_rows = [2, 3]" by (simp add: ex_rows_def)
  have r4: "w_mem (snd ?R) (elem_addr ex_rows k) =
              w_mem (snd ?N) (elem_addr ?y (source_index [3] [2, 3] k))" if "k < 6" for k
    using r2 that by (simp add: n6 sy sr)
  have v6: "map (\<lambda>j. w_mem (snd ?N) (elem_addr ?y j)) [0, 1, 2, 0, 1, 2] = [10, 11, 10, 10, 11, 10]"
    using ex_ramp_values by simp
  have "elems ex_rows (w_mem (snd ?R)) =
          map (\<lambda>k. w_mem (snd ?R) (elem_addr ex_rows k)) [0, 1, 2, 3, 4, 5]"
    by (simp only: elems_def n6 upt_6)
  also have "\<dots> = map (\<lambda>k. w_mem (snd ?N) (elem_addr ?y (source_index [3] [2, 3] k)))
                      [0, 1, 2, 3, 4, 5]"
    by (intro list.map_cong0 r4) auto
  also have "\<dots> = map (\<lambda>j. w_mem (snd ?N) (elem_addr ?y j))
                      (map (source_index [3] [2, 3]) [0, 1, 2, 3, 4, 5])"
    by (simp only: map_map o_def)
  also have "\<dots> = [10, 11, 10, 10, 11, 10]"
    by (simp only: ex_source_index v6)
  finally have r3: "elems ex_rows (w_mem (snd ?R)) = [10, 11, 10, 10, 11, 10]" .
  note u = destination_returned [OF refl refl, of "ex_generator 2" "Some [3]" float64 "''inv''"
      ex_ramp_world ex_destination, THEN conjunct2, rule_format, OF y]
  note u' = u [THEN conjunct2, THEN conjunct2, THEN conjunct1, rule_format, OF bd]
  have d1: "fst ?D = Inr ex_destination" using u' by simp
  have d2: "elems ex_destination (w_mem (snd ?D)) = [10, 11, 10]"
    using u' d ey by simp
  show ?thesis using y b d r1 r3 d1 d2 by (simp add: sy)
qed

text \<open>
  C6 as stated fails: with a destination of 2 doubles, \<open>standard_exponential(3)\<close> raises
  \<open>ValueError\<close>; three sampled values cannot be broadcast to two elements.
\<close>

theorem destination_returned_counterexample:
  "fst (standard_exponential (ex_generator 2) (Some [3]) float64 ''inv'' (Some ex_short)
          ex_world) = Inl ValueError"
  by (simp add: standard_exponential_cases Let_def fst_launch_distribution_kernel
      sampled_def shape_arg_def ex_generator_def ex_world_def nd_size_def ex_short_def
      broadcastable_def)

subsection \<open>integers: width, result and allocations\<close>

lemma add_scalar_mem:
  "w_mem (snd (add_scalar low y w)) =
     store_elems (fst (add_scalar low y w)) (map (\<lambda>v. low + v) (elems y (w_mem w))) (w_mem w)"
  by (simp add: add_scalar_def ndarray_new_eq split: prod.splits)

lemma integers_allocs:
  "w_allocs (snd (integers g low high sz dt endpoint w)) =
     w_allocs w @
       (let d = integers_diff low high endpoint;
            y = sampled sz (width_of d) w;
            n = prod_list (shape_arg sz) * itemsize (width_of d)
        in if UINT64_MAX < \<bar>d\<bar> then []
           else (w_brk w, n) #
             (case fst (launch_distribution_kernel g (interval_of d) y
                          (snd (ndarray_new (shape_arg sz) (width_of d) w))) of
                Inl e \<Rightarrow> []
              | Inr _ \<Rightarrow> [(w_brk w + int n, n)]))"
  by (simp add: integers_cases Let_def snd_launch_distribution_kernel sampled_def nd_size_def
      split: sum.splits)

lemma integers_result:
  "fst (integers g low high sz dt endpoint w) =
     (let d = integers_diff low high endpoint;
          y = sampled sz (width_of d) w;
          n = prod_list (shape_arg sz) * itemsize (width_of d)
      in if UINT64_MAX < \<bar>d\<bar> then Inl OverflowError
         else (case fst (launch_distribution_kernel g (interval_of d) y
                          (snd (ndarray_new (shape_arg sz) (width_of d) w))) of
                 Inl e \<Rightarrow> Inl e
               | Inr _ \<Rightarrow> Inr \<lparr>shape = shape_arg sz, dtype_of = width_of d,
                                data_ptr = w_brk w + int n\<rparr>))"
  by (simp add: integers_cases Let_def snd_launch_distribution_kernel sampled_def
      split: sum.splits)

lemma integers_never_ValueError: "fst (integers g low high sz dt endpoint w) \<noteq> Inl ValueError"
  by (simp add: integers_result Let_def fst_launch_distribution_kernel split: sum.splits)

lemma integers_values:
  assumes "fst (integers g low high sz dt endpoint w) = Inr z"
  shows "elems z (w_mem (snd (integers g low high sz dt endpoint w))) =
           map (\<lambda>v. low + v)
             (elems (sampled sz (width_of (integers_diff low high endpoint)) w)
                (w_mem (snd (integers g low high sz dt endpoint w))))"
proof -
  let ?d = "integers_diff low high endpoint"
  let ?y = "sampled sz (width_of ?d) w"
  let ?r = "launch_distribution_kernel g (interval_of ?d) ?y
              (snd (ndarray_new (shape_arg sz) (width_of ?d) w))"
  let ?w2 = "snd ?r"
  let ?z = "fst (add_scalar low ?y ?w2)"
  from assms have big: "\<not> UINT64_MAX < \<bar>?d\<bar>"
    by (auto simp: integers_cases Let_def)
  with assms obtain u where ok: "fst ?r = Inr u"
    by (cases "fst ?r") (auto simp: integers_cases Let_def)
  have z: "z = ?z" and w': "snd (integers g low high sz dt endpoint w) = snd (add_scalar low ?y ?w2)"
    using assms big ok by (simp_all add: integers_cases Let_def)
  have brk: "w_brk ?w2 = w_brk w + int (nd_size ?y * itemsize (dtype_of ?y))"
    by (simp add: snd_launch_distribution_kernel sampled_def nd_size_def)
  have zp: "data_ptr ?z = w_brk ?w2" and zs: "nd_size ?z = nd_size ?y"
    by (simp_all add: nd_size_def)
  let ?vs = "map (\<lambda>v. low + v) (elems ?y (w_mem ?w2))"
  have m: "w_mem (snd (add_scalar low ?y ?w2)) = store_elems ?z ?vs (w_mem ?w2)"
    by (rule add_scalar_mem)
  have a: "elems ?z (store_elems ?z ?vs (w_mem ?w2)) = ?vs"
    by (rule elems_store_elems) (simp add: nd_size_def)
  have "data_ptr ?y + int (nd_size ?y * itemsize (dtype_of ?y)) \<le> data_ptr ?z"
    unfolding zp brk by (simp add: sampled_def)
  then have b: "elems ?y (store_elems ?z ?vs (w_mem ?w2)) = elems ?y (w_mem ?w2)"
    by (rule elems_store_elems_other)
  show ?thesis unfolding z w' m a b ..
qed

lemma length_issued:
  "w_device w = bg_current_device g \<Longrightarrow> fits func \<Longrightarrow> shape out = [N] \<Longrightarrow>
   length (issued g func out w) = (if bg_size g = 0 then 1 else chunks_of N (bg_size g))"
  by (auto simp: issued_def nd_size_def chunks_of_def)

lemma integers_new_launches:
  "new_launches w (snd (integers g low high sz dt endpoint w)) =
     (if UINT64_MAX < \<bar>integers_diff low high endpoint\<bar> then []
      else issued g (interval_of (integers_diff low high endpoint))
             (sampled sz (width_of (integers_diff low high endpoint)) w) w)"
  by (rule new_launches_append [OF integers_launches])

lemma integers_new_allocs_hd:
  "\<bar>integers_diff low high endpoint\<bar> \<le> UINT64_MAX \<Longrightarrow>
   hd (new_allocs w (snd (integers g low high sz dt endpoint w))) =
     (w_brk w, prod_list (shape_arg sz) * itemsize (width_of (integers_diff low high endpoint)))"
  by (simp add: new_allocs_append [OF integers_allocs] Let_def del: new_allocs_append)

text \<open>
  C2, as the code has it. Let \<open>diff\<close> be \<open>high - low\<close>, minus 1 when \<open>endpoint\<close> is false, and
  \<open>diff \<ge> 0\<close>. If \<open>diff \<le> 0xffffffff\<close>, every kernel call of \<open>integers\<close> is a call of
  \<open>interval_32\<close> (with the generator's tag, state pointer and the current stream, \<open>mx = diff\<close>
  and the mask), the sampled buffer has 4 bytes per element and a returned array is
  \<open>uint32\<close>. Else if \<open>diff \<le> 0xffffffffffffffff\<close>, the same holds with \<open>interval_64\<close>, 8
  bytes and \<open>uint64\<close>. Else the call fails and leaves the world as it was: no kernel is
  called, nothing is allocated. Which exception it fails with is left open here. In the
  first two cases, on the generator's device and for a one-dimensional size, the call
  succeeds and issues the dispatcher's number of kernel calls. A returned array has the
  requested shape and holds \<open>low + v\<close> for each sampled \<open>v\<close>. \<open>integers(0, 2**31, 5)\<close> is
  in the first case, \<open>integers(0, 2**40, 5)\<close> in the second, \<open>integers(0, 2**65, 5)\<close> in the
  third.
\<close>

theorem integers_width_selection:
  assumes d: "d = integers_diff low high endpoint"
    and R: "R = integers g low high sz dt endpoint w"
  shows
    "(0 \<le> d \<and> d \<le> UINT32_MAX \<longrightarrow>
        (\<forall>l \<in> set (new_launches w (snd R)).
           \<exists>p n. l = Interval_32 (bg_generator g) (data_ptr (bg_state g)) p n (w_stream w)
                        d (integers_mask d))
        \<and> hd (new_allocs w (snd R)) = (w_brk w, prod_list (shape_arg sz) * 4)
        \<and> (\<forall>z. fst R = Inr z \<longrightarrow> dtype_of z = uint32))
     \<and> (UINT32_MAX < d \<and> d \<le> UINT64_MAX \<longrightarrow>
        (\<forall>l \<in> set (new_launches w (snd R)).
           \<exists>p n. l = Interval_64 (bg_generator g) (data_ptr (bg_state g)) p n (w_stream w)
                        d (integers_mask d))
        \<and> hd (new_allocs w (snd R)) = (w_brk w, prod_list (shape_arg sz) * 8)
        \<and> (\<forall>z. fst R = Inr z \<longrightarrow> dtype_of z = uint64))
     \<and> (UINT64_MAX < d \<longrightarrow> (\<exists>e. fst R = Inl e) \<and> snd R = w)
     \<and> (0 \<le> d \<and> d \<le> UINT64_MAX \<and> w_device w = bg_current_device g \<and> shape_arg sz = [N] \<longrightarrow>
        (\<exists>z. fst R = Inr z)
        \<and> length (new_launches w (snd R)) = (if bg_size g = 0 then 1 else chunks_of N (bg_size g)))
     \<and> (\<forall>z. fst R = Inr z \<longrightarrow>
          shape z = shape_arg sz
          \<and> elems z (w_mem (snd R)) =
              map (\<lambda>v. low + v) (elems (sampled sz (width_of d) w) (w_mem (snd R))))
     \<and> 0 \<le> integers_diff 0 (2 ^ 31) False \<and> integers_diff 0 (2 ^ 31) False \<le> UINT32_MAX
     \<and> UINT32_MAX < integers_diff 0 (2 ^ 40) False \<and> integers_diff 0 (2 ^ 40) False \<le> UINT64_MAX
     \<and> UINT64_MAX < integers_diff 0 (2 ^ 65) False"
proof -
  have lt: "UINT32_MAX < UINT64_MAX" by (simp add: UINT32_MAX_def UINT64_MAX_def)
  have w32: "0 \<le> d \<and> d \<le> UINT32_MAX \<longrightarrow>
        (\<forall>l \<in> set (new_launches w (snd R)).
           \<exists>p n. l = Interval_32 (bg_generator g) (data_ptr (bg_state g)) p n (w_stream w)
                        d (integers_mask d))
        \<and> hd (new_allocs w (snd R)) = (w_brk w, prod_list (shape_arg sz) * 4)
        \<and> (\<forall>z. fst R = Inr z \<longrightarrow> dtype_of z = uint32)"
  proof (intro impI conjI ballI allI)
    assume a: "0 \<le> d \<and> d \<le> UINT32_MAX"
    then have abs: "\<bar>d\<bar> \<le> UINT64_MAX" using lt by linarith
    show "hd (new_allocs w (snd R)) = (w_brk w, prod_list (shape_arg sz) * 4)"
      using integers_new_allocs_hd [of low high endpoint w g sz dt] abs a
      by (simp add: d R width_of_def)
    fix z assume "fst R = Inr z"
    then show "dtype_of z = uint32"
      using a abs by (auto simp: R d integers_result Let_def width_of_def split: sum.splits)
  next
    fix l assume a: "0 \<le> d \<and> d \<le> UINT32_MAX" and "l \<in> set (new_launches w (snd R))"
    then have "l \<in> set (issued g (interval_32 d (integers_mask d)) (sampled sz (width_of d) w) w)"
      by (simp add: R d integers_new_launches interval_of_def split: if_splits)
    from issued_calls [OF this]
    show "\<exists>p n. l = Interval_32 (bg_generator g) (data_ptr (bg_state g)) p n (w_stream w)
                        d (integers_mask d)"
      by simp
  qed
  have w64: "UINT32_MAX < d \<and> d \<le> UINT64_MAX \<longrightarrow>
        (\<forall>l \<in> set (new_launches w (snd R)).
           \<exists>p n. l = Interval_64 (bg_generator g) (data_ptr (bg_state g)) p n (w_stream w)
                        d (integers_mask d))
        \<and> hd (new_allocs w (snd R)) = (w_brk w, prod_list (shape_arg sz) * 8)
        \<and> (\<forall>z. fst R = Inr z \<longrightarrow> dtype_of z = uint64)"
  proof (intro impI conjI ballI allI)
    assume a: "UINT32_MAX < d \<and> d \<le> UINT64_MAX"
    then have abs: "\<bar>d\<bar> \<le> UINT64_MAX" by (simp add: UINT32_MAX_def)
    show "hd (new_allocs w (snd R)) = (w_brk w, prod_list (shape_arg sz) * 8)"
      using integers_new_allocs_hd [of low high endpoint w g sz dt] abs a
      by (simp add: d R width_of_def)
    fix z assume "fst R = Inr z"
    then show "dtype_of z = uint64"
      using a abs by (auto simp: R d integers_result Let_def width_of_def split: sum.splits)
  next
    fix l assume a: "UINT32_MAX < d \<and> d \<le> UINT64_MAX" and "l \<in> set (new_launches w (snd R))"
    then have "l \<in> set (issued g (interval_64 d (integers_mask d)) (sampled sz (width_of d) w) w)"
      by (simp add: R d integers_new_launches interval_of_def split: if_splits)
    from issued_calls [OF this]
    show "\<exists>p n. l = Interval_64 (bg_generator g) (data_ptr (bg_state g)) p n (w_stream w)
                        d (integers_mask d)"
      by simp
  qed
  have big: "UINT64_MAX < d \<longrightarrow> (\<exists>e. fst R = Inl e) \<and> snd R = w"
  proof
    assume "UINT64_MAX < d"
    then have "UINT64_MAX < \<bar>integers_diff low high endpoint\<bar>" unfolding d by linarith
    then show "(\<exists>e. fst R = Inl e) \<and> snd R = w"
      by (simp add: R integers_cases Let_def)
  qed
  have run: "0 \<le> d \<and> d \<le> UINT64_MAX \<and> w_device w = bg_current_device g \<and> shape_arg sz = [N] \<longrightarrow>
        (\<exists>z. fst R = Inr z)
        \<and> length (new_launches w (snd R)) = (if bg_size g = 0 then 1 else chunks_of N (bg_size g))"
  proof (intro impI)
    assume a: "0 \<le> d \<and> d \<le> UINT64_MAX \<and> w_device w = bg_current_device g \<and> shape_arg sz = [N]"
    then have abs: "\<not> UINT64_MAX < \<bar>d\<bar>" by linarith
    have fit: "fits (interval_of d)"
      using a fits_32 [of d] fits_64 [of d] by (simp add: interval_of_def)
    have shp: "shape (sampled sz (width_of d) w) = [N]" using a by (simp add: sampled_def)
    have "\<exists>z. fst R = Inr z"
      using a abs fit shp
      by (simp add: R d integers_result Let_def fst_launch_distribution_kernel)
    moreover have "length (new_launches w (snd R)) =
        (if bg_size g = 0 then 1 else chunks_of N (bg_size g))"
      using abs a length_issued [OF _ fit shp, of w g]
      by (simp add: R d integers_new_launches)
    ultimately show "(\<exists>z. fst R = Inr z)
        \<and> length (new_launches w (snd R)) = (if bg_size g = 0 then 1 else chunks_of N (bg_size g))"
      by simp
  qed
  have vals: "\<forall>z. fst R = Inr z \<longrightarrow>
          shape z = shape_arg sz
          \<and> elems z (w_mem (snd R)) =
              map (\<lambda>v. low + v) (elems (sampled sz (width_of d) w) (w_mem (snd R)))"
  proof (intro allI impI conjI)
    fix z assume z: "fst R = Inr z"
    then show "shape z = shape_arg sz"
      by (auto simp: R integers_result Let_def split: sum.splits if_splits)
    show "elems z (w_mem (snd R)) =
              map (\<lambda>v. low + v) (elems (sampled sz (width_of d) w) (w_mem (snd R)))"
      using integers_values [of g low high sz dt endpoint w z] z by (simp add: R d)
  qed
  have ex: "0 \<le> integers_diff 0 (2 ^ 31) False \<and> integers_diff 0 (2 ^ 31) False \<le> UINT32_MAX
     \<and> UINT32_MAX < integers_diff 0 (2 ^ 40) False \<and> integers_diff 0 (2 ^ 40) False \<le> UINT64_MAX
     \<and> UINT64_MAX < integers_diff 0 (2 ^ 65) False"
    by (simp add: integers_diff_def UINT32_MAX_def UINT64_MAX_def)
  show ?thesis
    by (intro conjI w32 w64 big run vals ex [THEN conjunct1]
        ex [THEN conjunct2, THEN conjunct1]
        ex [THEN conjunct2, THEN conjunct2, THEN conjunct1]
        ex [THEN conjunct2, THEN conjunct2, THEN conjunct2, THEN conjunct1]
        ex [THEN conjunct2, THEN conjunct2, THEN conjunct2, THEN conjunct2])
qed

theorem integers_width_selection_witness:
  "(0::int) \<le> 2 ^ 31 - 1 \<and> (2::int) ^ 31 - 1 \<le> UINT32_MAX
   \<and> UINT32_MAX < 2 ^ 40 - 1 \<and> (2::int) ^ 40 - 1 \<le> UINT64_MAX \<and> UINT64_MAX < 2 ^ 65 - 1
   \<and> w_device ex_world = bg_current_device (ex_generator 2) \<and> shape_arg (Some [5]) = [5]
   \<and> length (new_launches ex_world
        (snd (integers (ex_generator 2) 0 (2 ^ 31) (Some [5]) int32 False ex_world))) = 3
   \<and> (\<exists>z. fst (integers (ex_generator 2) 0 (2 ^ 31) (Some [5]) int32 False ex_world) = Inr z
          \<and> dtype_of z = uint32)
   \<and> length (new_launches ex_world
        (snd (integers (ex_generator 2) 0 (2 ^ 40) (Some [5]) int32 False ex_world))) = 3
   \<and> (\<exists>z. fst (integers (ex_generator 2) 0 (2 ^ 40) (Some [5]) int32 False ex_world) = Inr z
          \<and> dtype_of z = uint64)
   \<and> (\<exists>e. fst (integers (ex_generator 2) 0 (2 ^ 65) (Some [5]) int32 False ex_world) = Inl e)
   \<and> snd (integers (ex_generator 2) 0 (2 ^ 65) (Some [5]) int32 False ex_world) = ex_world"
proof -
  have d31: "integers_diff 0 (2 ^ 31) False = 2 ^ 31 - 1"
    and d40: "integers_diff 0 (2 ^ 40) False = 2 ^ 40 - 1"
    and d65: "integers_diff 0 (2 ^ 65) False = 2 ^ 65 - 1"
    by (simp_all add: integers_diff_def)
  have r: "(0::int) \<le> 2 ^ 31 - 1" "(2::int) ^ 31 - 1 \<le> UINT32_MAX"
    "(2::int) ^ 31 - 1 \<le> UINT64_MAX"
    "UINT32_MAX < 2 ^ 40 - 1" "(0::int) \<le> 2 ^ 40 - 1" "(2::int) ^ 40 - 1 \<le> UINT64_MAX"
    "UINT64_MAX < 2 ^ 65 - 1"
    by (simp_all add: UINT32_MAX_def UINT64_MAX_def)
  have dev: "w_device ex_world = bg_current_device (ex_generator 2)"
    by (simp add: ex_world_def ex_generator_def)
  have shp: "shape_arg (Some [5]) = [5]" by (simp add: shape_arg_def)
  have c: "bg_size (ex_generator 2) = 2" "chunks_of 5 2 = 3"
    by (simp_all add: ex_generator_def chunks_of_def)
  note t31 = integers_width_selection [where low = 0 and high = "2 ^ 31" and endpoint = False
      and g = "ex_generator 2" and sz = "Some [5]" and dt = int32 and w = ex_world and N = 5,
      OF refl refl, unfolded d31]
  note t40 = integers_width_selection [where low = 0 and high = "2 ^ 40" and endpoint = False
      and g = "ex_generator 2" and sz = "Some [5]" and dt = int32 and w = ex_world and N = 5,
      OF refl refl, unfolded d40]
  note t65 = integers_width_selection [where low = 0 and high = "2 ^ 65" and endpoint = False
      and g = "ex_generator 2" and sz = "Some [5]" and dt = int32 and w = ex_world and N = 5,
      OF refl refl, unfolded d65]
  let ?R31 = "integers (ex_generator 2) 0 (2 ^ 31) (Some [5]) int32 False ex_world"
  let ?R40 = "integers (ex_generator 2) 0 (2 ^ 40) (Some [5]) int32 False ex_world"
  let ?R65 = "integers (ex_generator 2) 0 (2 ^ 65) (Some [5]) int32 False ex_world"
  from t31 [THEN conjunct2, THEN conjunct2, THEN conjunct2, THEN conjunct1] r dev shp
  have a1: "(\<exists>z. fst ?R31 = Inr z)" and a2: "length (new_launches ex_world (snd ?R31)) = 3"
    by (simp_all add: c)
  from t31 [THEN conjunct1] r
  have a3: "\<forall>z. fst ?R31 = Inr z \<longrightarrow> dtype_of z = uint32" by simp
  from t40 [THEN conjunct2, THEN conjunct2, THEN conjunct2, THEN conjunct1] r dev shp
  have b1: "(\<exists>z. fst ?R40 = Inr z)" and b2: "length (new_launches ex_world (snd ?R40)) = 3"
    by (simp_all add: c)
  from t40 [THEN conjunct2, THEN conjunct1] r
  have b3: "\<forall>z. fst ?R40 = Inr z \<longrightarrow> dtype_of z = uint64" by simp
  from t65 [THEN conjunct2, THEN conjunct2, THEN conjunct1] r
  have c1: "(\<exists>e. fst ?R65 = Inl e) \<and> snd ?R65 = ex_world" by simp
  show ?thesis using r dev shp a1 a2 a3 b1 b2 b3 c1 by auto
qed

text \<open>
  C2 as stated fails twice. \<open>integers(0, 2**65, 5)\<close> raises \<open>OverflowError\<close>, not the
  \<open>ValueError\<close> of the source ("high - low must be within uint64 range", the spec's
  RangeOverflowError): the mask \<open>2 ^ 65 - 1\<close> is assigned to a \<open>cdef uint64_t\<close> before
  \<open>diff\<close> is tested, and does not convert. And \<open>integers(10, 0, 5)\<close>, whose \<open>diff = -11\<close>
  fits neither unsigned width, is not refused by the range test either: it takes the 32-bit
  path, allocates the 20 bytes of a buffer of five \<open>uint32\<close>, and raises \<open>OverflowError\<close>
  at the first kernel call.
\<close>

theorem integers_width_selection_counterexample:
  "fst (integers (ex_generator 2) 0 (2 ^ 65) (Some [5]) int32 False ex_world) = Inl OverflowError
   \<and> fst (integers (ex_generator 2) 10 0 (Some [5]) int32 False ex_world) = Inl OverflowError
   \<and> w_allocs (snd (integers (ex_generator 2) 10 0 (Some [5]) int32 False ex_world))
       = [(1024, 96), (4096, 20)]"
  by (simp add: integers_result integers_allocs integers_diff_def UINT64_MAX_def UINT32_MAX_def
      Let_def fst_launch_distribution_kernel interval_of_def width_of_def sampled_def
      shape_arg_def nd_size_def ex_generator_def ex_world_def)

subsection \<open>integers with a negative width\<close>

text \<open>
  C10, as the code has it. \<open>integers\<close> does not compare \<open>high\<close> with \<open>low\<close>. For a negative
  \<open>diff\<close> above \<open>- 2 ^ 64\<close> (\<open>high == low\<close> without endpoint gives \<open>-1\<close>): the test
  \<open>diff <= _UINT32_MAX\<close> holds; the mask is \<open>2 ^ k - 1\<close> for the bit length \<open>k\<close> of \<open>- diff\<close>
  and converts to \<open>uint64_t\<close>; a buffer of 4 bytes per element is allocated and the
  dispatcher is entered with \<open>interval_32\<close>, the negative \<open>diff\<close> and the mask; the call never
  raises the \<open>ValueError\<close> of the range test. But no kernel is ever called with the negative
  width: \<open>mx\<close> is a \<open>uint32_t\<close>, and the first call \<open>func(...)\<close> raises \<open>OverflowError\<close>
  when it converts \<open>diff\<close>. So on the generator's device the operation fails with
  \<open>OverflowError\<close> whenever a call is due (a generator without stream count, or a buffer
  with an axis and at least one element).
\<close>

theorem integers_negative_width:
  assumes d: "d = integers_diff low high endpoint" and neg: "d < 0"
    and abs: "\<bar>d\<bar> \<le> UINT64_MAX"
    and R: "R = integers g low high sz dt endpoint w"
  shows "d \<le> UINT32_MAX
     \<and> integers_mask d = 2 ^ bit_length (- d) - 1
     \<and> as_uint64 (integers_mask d) = Inr (integers_mask d)
     \<and> R = (let y = sampled sz uint32 w;
                r = launch_distribution_kernel g (interval_32 d (integers_mask d)) y
                      (snd (ndarray_new (shape_arg sz) uint32 w))
            in case fst r of
                 Inl e \<Rightarrow> (Inl e, snd r)
               | Inr _ \<Rightarrow> (Inr (fst (add_scalar low y (snd r))), snd (add_scalar low y (snd r))))
     \<and> fst R \<noteq> Inl ValueError
     \<and> hd (new_allocs w (snd R)) = (w_brk w, prod_list (shape_arg sz) * 4)
     \<and> new_launches w (snd R) = []
     \<and> (w_device w = bg_current_device g
          \<and> (bg_size g = 0 \<or> shape_arg sz \<noteq> [] \<and> 0 < prod_list (shape_arg sz))
        \<longrightarrow> fst R = Inl OverflowError)"
proof -
  have le: "d \<le> UINT32_MAX" using neg by (simp add: UINT32_MAX_def)
  have w: "width_of d = uint32" and k: "interval_of d = interval_32 d (integers_mask d)"
    using le by (simp_all add: width_of_def interval_of_def)
  have unfit: "\<not> fits (interval_32 d (integers_mask d))" using neg by simp
  have m: "integers_mask d = 2 ^ bit_length (- d) - 1"
    by (simp add: integers_mask_def bit_length_def)
  have c: "as_uint64 (integers_mask d) = Inr (integers_mask d)"
    using abs by (simp add: mask_as_uint64)
  have big: "\<not> UINT64_MAX < \<bar>integers_diff low high endpoint\<bar>" using abs d by simp
  have eq: "R = (let y = sampled sz uint32 w;
                r = launch_distribution_kernel g (interval_32 d (integers_mask d)) y
                      (snd (ndarray_new (shape_arg sz) uint32 w))
            in case fst r of
                 Inl e \<Rightarrow> (Inl e, snd r)
               | Inr _ \<Rightarrow> (Inr (fst (add_scalar low y (snd r))), snd (add_scalar low y (snd r))))"
    using big w k
    by (simp add: R integers_cases [of g low high sz dt endpoint w] Let_def d
          split: sum.splits)
  have nv: "fst R \<noteq> Inl ValueError" unfolding R by (rule integers_never_ValueError)
  have al: "hd (new_allocs w (snd R)) = (w_brk w, prod_list (shape_arg sz) * 4)"
    using integers_new_allocs_hd [of low high endpoint w g sz dt] abs w by (simp add: R d)
  have nl: "new_launches w (snd R) = []"
    using big unfit k by (simp add: R integers_new_launches d [symmetric] issued_def)
  have err: "w_device w = bg_current_device g
          \<and> (bg_size g = 0 \<or> shape_arg sz \<noteq> [] \<and> 0 < prod_list (shape_arg sz))
        \<longrightarrow> fst R = Inl OverflowError"
    using big unfit k w
    by (auto simp: R integers_result Let_def d [symmetric] fst_launch_distribution_kernel
          sampled_def nd_size_def)
  show ?thesis by (intro conjI le m c eq nv al nl err)
qed

theorem integers_negative_width_witness:
  "integers_diff 5 5 False = - 1 \<and> (- 1::int) < 0 \<and> \<bar>- 1::int\<bar> \<le> UINT64_MAX
   \<and> w_device ex_world = bg_current_device (ex_generator 2)
   \<and> shape_arg (Some [5]) \<noteq> [] \<and> 0 < prod_list (shape_arg (Some [5]))
   \<and> integers_mask (- 1) = 1
   \<and> fst (integers (ex_generator 2) 5 5 (Some [5]) int32 False ex_world) = Inl OverflowError
   \<and> new_launches ex_world (snd (integers (ex_generator 2) 5 5 (Some [5]) int32 False ex_world))
       = []
   \<and> hd (new_allocs ex_world
        (snd (integers (ex_generator 2) 5 5 (Some [5]) int32 False ex_world))) = (4096, 20)"
proof -
  have d: "- 1 = integers_diff 5 5 False" by (simp add: integers_diff_def)
  have neg: "(- 1::int) < 0" by simp
  have abs: "\<bar>- 1::int\<bar> \<le> UINT64_MAX" by (simp add: UINT64_MAX_def)
  have dev: "w_device ex_world = bg_current_device (ex_generator 2)"
    by (simp add: ex_world_def ex_generator_def)
  have shp: "shape_arg (Some [5]) \<noteq> [] \<and> 0 < prod_list (shape_arg (Some [5]))"
    by (simp add: shape_arg_def)
  have b: "bit_length 1 = 1" using bit_length_eq [of 0 1] by simp
  note t = integers_negative_width [OF d neg abs refl, of "ex_generator 2" "Some [5]" int32 ex_world]
  have m: "integers_mask (- 1) = 1" using t [THEN conjunct2, THEN conjunct1] by (simp add: b)
  have e: "fst (integers (ex_generator 2) 5 5 (Some [5]) int32 False ex_world) = Inl OverflowError"
    using t dev shp by blast
  have l: "new_launches ex_world
      (snd (integers (ex_generator 2) 5 5 (Some [5]) int32 False ex_world)) = []"
    using t by blast
  have a: "hd (new_allocs ex_world
        (snd (integers (ex_generator 2) 5 5 (Some [5]) int32 False ex_world))) = (4096, 20)"
    using t [THEN conjunct2, THEN conjunct2, THEN conjunct2, THEN conjunct2, THEN conjunct2,
        THEN conjunct1]
    by (simp add: shape_arg_def ex_world_def)
  show ?thesis using d neg abs dev shp m e l a by simp
qed

text \<open>
  C10 as stated fails: \<open>integers(5, 5, 5)\<close>, with \<open>diff = -1\<close>, raises \<open>OverflowError\<close> and
  no kernel is called.
\<close>

theorem integers_negative_width_counterexample:
  "fst (integers (ex_generator 2) 5 5 (Some [5]) int32 False ex_world) = Inl OverflowError
   \<and> w_launches (snd (integers (ex_generator 2) 5 5 (Some [5]) int32 False ex_world)) = []"
  by (simp add: integers_result integers_launches integers_diff_def UINT64_MAX_def
      UINT32_MAX_def Let_def fst_launch_distribution_kernel issued_def interval_of_def
      width_of_def sampled_def shape_arg_def nd_size_def ex_generator_def ex_world_def)

subsection \<open>Construction of a generator\<close>

lemma bytes_pos: "0 < bytes c"
  using bytes [of c] by simp

lemma type_size_pos: "0 < type_size h gen"
  by (cases gen) (simp_all add: bytes_pos)

lemma as_uint64_uint: "as_uint64 (uint (x :: 64 word)) = Inr (uint x)"
proof -
  have "uint x < 2 ^ 64" using uint_bounded [of x] by simp
  then show ?thesis by (simp add: as_uint64_def UINT64_MAX_def)
qed

lemma zeros_fields [simp]:
  "fst (zeros n dt w) = \<lparr>shape = [n], dtype_of = dt, data_ptr = w_brk w\<rparr>"
  "w_launches (snd (zeros n dt w)) = w_launches w"
  "w_device (snd (zeros n dt w)) = w_device w"
  "w_stream (snd (zeros n dt w)) = w_stream w"
  "w_kernels (snd (zeros n dt w)) = w_kernels w"
  "w_brk (snd (zeros n dt w)) = w_brk w + int (n * itemsize dt)"
  "w_allocs (snd (zeros n dt w)) = w_allocs w @ [(w_brk w, n * itemsize dt)]"
  "w_mem (snd (zeros n dt w)) = store_elems (fst (zeros n dt w)) (replicate n 0) (w_mem w)"
  by (simp_all add: zeros_def ndarray_new_eq split: prod.splits)

lemma zeros_zero:
  "k < n \<Longrightarrow> w_mem (snd (zeros n dt w)) (elem_addr (fst (zeros n dt w)) k) = 0"
  by (simp add: store_elems_hit del: zeros_fields(1))

lemma as_ssize_nat:
  "as_ssize (int n) = (if SSIZE_MAX < int n then Inl OverflowError else Inr (int n))"
  by (simp add: as_ssize_def SSIZE_MAX_def)

lemma cuRANDGenerator_init_cases:
  "cuRANDGenerator_init h expand gen sd sz w =
     (let n = type_size h gen * sz
      in if SSIZE_MAX < int n then (Inl OverflowError, w)
         else (Inr \<lparr>bg_lock = Unlocked, bg_current_device = w_device w,
                    bg_seed = uint (expand sd), bg_size = sz,
                    bg_state = fst (zeros n int8 w), bg_generator = gen\<rparr>,
               run_kernel (Init_curand_generator gen (w_brk w) (uint (expand sd)) sz (w_stream w))
                 (snd (zeros n int8 w))))"
proof (cases "SSIZE_MAX < int (type_size h gen * sz)")
  case True
  then show ?thesis
    by (simp add: cuRANDGenerator_init_def as_ssize_nat Let_def del: of_nat_mult)
next
  case False
  have "sz \<le> type_size h gen * sz" using type_size_pos [of h gen] by simp
  then have sz: "int sz \<le> SSIZE_MAX" using False by linarith
  show ?thesis using False sz
    by (simp add: cuRANDGenerator_init_def as_ssize_nat Let_def as_uint64_uint split_beta
          del: of_nat_mult)
qed

text \<open>
  C7. The default stream count is 102400, and for each of the three algorithm tags the size
  of a stream's state is positive. When \<open>_type_size() * size\<close> fits a \<open>ssize_t\<close>, the
  constructor succeeds, for any seed: it records the tag, the stream count, the active
  device and the working seed; it allocates one buffer, of exactly \<open>_type_size() * size\<close>
  bytes; it calls \<open>init_curand_generator\<close> exactly once, with the tag, the buffer's pointer,
  the working seed, the stream count and the current stream; and the memory this call
  finds is zero on every byte of the buffer. (Beyond a \<open>ssize_t\<close> the constructor raises
  \<open>OverflowError\<close> and constructs nothing.) Afterwards the buffer keeps its size: the
  generator's fields are never assigned again, and the dispatcher and the three sampling
  methods only add allocations to those that exist.
\<close>

theorem state_buffer_allocated:
  "default_size = 102400
   \<and> 0 < type_size h gen
   \<and> (SSIZE_MAX < int (type_size h gen * sz) \<longrightarrow>
        cuRANDGenerator_init h expand gen sd sz w = (Inl OverflowError, w))
   \<and> (int (type_size h gen * sz) \<le> SSIZE_MAX \<longrightarrow>
        (\<exists>g w'. cuRANDGenerator_init h expand gen sd sz w = (Inr g, w')
           \<and> bg_generator g = gen \<and> bg_size g = sz \<and> bg_current_device g = w_device w
           \<and> bg_seed g = uint (expand sd) \<and> bg_lock g = Unlocked
           \<and> shape (bg_state g) = [type_size h gen * sz] \<and> dtype_of (bg_state g) = int8
           \<and> new_allocs w w' = [(data_ptr (bg_state g), type_size h gen * sz)]
           \<and> new_launches w w' =
               [Init_curand_generator gen (data_ptr (bg_state g)) (uint (expand sd)) sz
                  (w_stream w)]
           \<and> (\<exists>m0. (\<forall>k < type_size h gen * sz. m0 (elem_addr (bg_state g) k) = 0)
                 \<and> w_mem w' =
                     w_kernels w (Init_curand_generator gen (data_ptr (bg_state g))
                                    (uint (expand sd)) sz (w_stream w)) m0)))
   \<and> (\<exists>xs. w_allocs (snd (integers g low high shp dt endpoint v)) = w_allocs v @ xs)
   \<and> (\<exists>xs. w_allocs (snd (beta_sample g a b shp dt v)) = w_allocs v @ xs)
   \<and> (\<exists>xs. w_allocs (snd (standard_exponential g shp dt method out v)) = w_allocs v @ xs)
   \<and> w_allocs (snd (launch_distribution_kernel g func buf v)) = w_allocs v"
proof -
  let ?n = "type_size h gen * sz"
  let ?init = "Init_curand_generator gen (w_brk w) (uint (expand sd)) sz (w_stream w)"
  have ok: "int ?n \<le> SSIZE_MAX \<longrightarrow>
        (\<exists>g w'. cuRANDGenerator_init h expand gen sd sz w = (Inr g, w')
           \<and> bg_generator g = gen \<and> bg_size g = sz \<and> bg_current_device g = w_device w
           \<and> bg_seed g = uint (expand sd) \<and> bg_lock g = Unlocked
           \<and> shape (bg_state g) = [?n] \<and> dtype_of (bg_state g) = int8
           \<and> new_allocs w w' = [(data_ptr (bg_state g), ?n)]
           \<and> new_launches w w' =
               [Init_curand_generator gen (data_ptr (bg_state g)) (uint (expand sd)) sz
                  (w_stream w)]
           \<and> (\<exists>m0. (\<forall>k < ?n. m0 (elem_addr (bg_state g) k) = 0)
                 \<and> w_mem w' =
                     w_kernels w (Init_curand_generator gen (data_ptr (bg_state g))
                                    (uint (expand sd)) sz (w_stream w)) m0))"
  proof
    assume le: "int ?n \<le> SSIZE_MAX"
    let ?g = "\<lparr>bg_lock = Unlocked, bg_current_device = w_device w,
                    bg_seed = uint (expand sd), bg_size = sz,
                    bg_state = fst (zeros ?n int8 w), bg_generator = gen\<rparr>"
    let ?w' = "run_kernel ?init (snd (zeros ?n int8 w))"
    have eq: "cuRANDGenerator_init h expand gen sd sz w = (Inr ?g, ?w')"
      using le by (simp add: cuRANDGenerator_init_cases Let_def)
    have al: "new_allocs w ?w' = [(data_ptr (bg_state ?g), ?n)]"
      by (rule new_allocs_append) (simp add: run_kernel_def)
    have la: "new_launches w ?w' =
               [Init_curand_generator gen (data_ptr (bg_state ?g)) (uint (expand sd)) sz
                  (w_stream w)]"
      by (rule new_launches_append) (simp add: run_kernel_def)
    have zero: "\<forall>k < ?n. w_mem (snd (zeros ?n int8 w)) (elem_addr (bg_state ?g) k) = 0"
      using zeros_zero [of _ ?n int8 w] by simp
    have mem: "w_mem ?w' = w_kernels w (Init_curand_generator gen (data_ptr (bg_state ?g))
                                    (uint (expand sd)) sz (w_stream w))
                             (w_mem (snd (zeros ?n int8 w)))"
      by (simp add: run_kernel_def del: zeros_fields(8))
    show "\<exists>g w'. cuRANDGenerator_init h expand gen sd sz w = (Inr g, w')
           \<and> bg_generator g = gen \<and> bg_size g = sz \<and> bg_current_device g = w_device w
           \<and> bg_seed g = uint (expand sd) \<and> bg_lock g = Unlocked
           \<and> shape (bg_state g) = [?n] \<and> dtype_of (bg_state g) = int8
           \<and> new_allocs w w' = [(data_ptr (bg_state g), ?n)]
           \<and> new_launches w w' =
               [Init_curand_generator gen (data_ptr (bg_state g)) (uint (expand sd)) sz
                  (w_stream w)]
           \<and> (\<exists>m0. (\<forall>k < ?n. m0 (elem_addr (bg_state g) k) = 0)
                 \<and> w_mem w' =
                     w_kernels w (Init_curand_generator gen (data_ptr (bg_state g))
                                    (uint (expand sd)) sz (w_stream w)) m0)"
      apply (rule exI [of _ ?g], rule exI [of _ ?w'])
      apply (intro conjI eq al la)
             apply simp_all
      apply (rule exI [of _ "w_mem (snd (zeros ?n int8 w))"])
      using zero mem by simp
  qed
  have big: "SSIZE_MAX < int ?n \<longrightarrow>
        cuRANDGenerator_init h expand gen sd sz w = (Inl OverflowError, w)"
    by (simp add: cuRANDGenerator_init_cases Let_def)
  have i: "\<exists>xs. w_allocs (snd (integers g low high shp dt endpoint v)) = w_allocs v @ xs"
    using integers_allocs by blast
  have b: "\<exists>xs. w_allocs (snd (beta_sample g a b shp dt v)) = w_allocs v @ xs"
    by (simp add: beta_sample_cases Let_def snd_launch_distribution_kernel split: sum.splits)
  have e: "\<exists>xs. w_allocs (snd (standard_exponential g shp dt method out v)) = w_allocs v @ xs"
    by (simp add: standard_exponential_cases Let_def snd_launch_distribution_kernel
        split: sum.splits option.splits)
  have l: "w_allocs (snd (launch_distribution_kernel g func buf v)) = w_allocs v"
    by (simp add: snd_launch_distribution_kernel)
  have ds: "default_size = 102400" by (simp add: default_size_def)
  show ?thesis by (intro conjI ds type_size_pos big ok i b e l)
qed

text \<open>An XORWOW generator of two streams with states of 48 bytes.\<close>

lemma ex_type_size: "type_size ex_sizes CURAND_XOR_WOW = 48"
  by (simp add: ex_sizes_def Csize_inverse)

theorem state_buffer_allocated_witness:
  "int (type_size ex_sizes CURAND_XOR_WOW * 2) \<le> SSIZE_MAX
   \<and> (\<exists>g w'. cuRANDGenerator_init ex_sizes (\<lambda>sd. 42) CURAND_XOR_WOW None 2 ex_world = (Inr g, w')
          \<and> bg_size g = 2
          \<and> new_allocs ex_world w' = [(data_ptr (bg_state g), 96)]
          \<and> new_launches ex_world w' =
               [Init_curand_generator CURAND_XOR_WOW (data_ptr (bg_state g)) 42 2 7]
          \<and> (\<exists>m0. (\<forall>k < 96. m0 (elem_addr (bg_state g) k) = 0)
                \<and> w_mem w' = ex_kernels
                     (Init_curand_generator CURAND_XOR_WOW (data_ptr (bg_state g)) 42 2 7) m0))"
proof -
  have h: "int (type_size ex_sizes CURAND_XOR_WOW * 2) \<le> SSIZE_MAX"
    unfolding ex_type_size by (simp add: SSIZE_MAX_def)
  have s: "w_stream ex_world = 7" "w_kernels ex_world = ex_kernels"
    by (simp_all add: ex_world_def)
  note t = state_buffer_allocated [of ex_sizes CURAND_XOR_WOW 2 "\<lambda>sd. 42" None ex_world,
      THEN conjunct2, THEN conjunct2, THEN conjunct2, THEN conjunct1, rule_format, OF h]
  from t obtain g w' m0
    where a: "cuRANDGenerator_init ex_sizes (\<lambda>sd. 42) CURAND_XOR_WOW None 2 ex_world = (Inr g, w')"
      and b: "bg_size g = 2"
      and c: "new_allocs ex_world w' = [(data_ptr (bg_state g), 96)]"
      and d: "new_launches ex_world w' =
               [Init_curand_generator CURAND_XOR_WOW (data_ptr (bg_state g)) 42 2 7]"
      and e: "\<forall>k < 96. m0 (elem_addr (bg_state g) k) = 0"
      and f: "w_mem w' = ex_kernels
                (Init_curand_generator CURAND_XOR_WOW (data_ptr (bg_state g)) 42 2 7) m0"
    unfolding ex_type_size s by auto
  show ?thesis using h a b c d e f by blast
qed

subsection \<open>The lock\<close>

text \<open>
  The lock of a generator is the one its constructor creates, unlocked. It is a field of the
  generator, and no operation of the module changes a generator: nothing acquires the lock.
\<close>

lemma constructed_lock:
  "cuRANDGenerator_init h expand gen sd sz w = (Inr g, w') \<Longrightarrow> bg_lock g = Unlocked"
  by (auto simp: cuRANDGenerator_init_cases Let_def split: if_splits)

text \<open>
  C9. \<open>XORWOW(size=2)\<close> constructs a generator whose lock is unlocked, and has called
  \<open>init_curand_generator\<close> by then; \<open>standard_exponential(3)\<close> on that generator issues its
  two kernel calls against the generator's state buffer. The lock is not held during the
  state initialization nor across the dispatch, as the claim requires: it is never
  acquired.
\<close>

theorem lock_never_acquired:
  "fst (cuRANDGenerator_init ex_sizes (\<lambda>sd. 42) CURAND_XOR_WOW None 2 ex_world)
     = Inr ex_constructed
   \<and> new_launches ex_world
        (snd (cuRANDGenerator_init ex_sizes (\<lambda>sd. 42) CURAND_XOR_WOW None 2 ex_world))
       = [Init_curand_generator CURAND_XOR_WOW 4096 42 2 7]
   \<and> bg_lock ex_constructed = Unlocked
   \<and> new_launches
        (snd (cuRANDGenerator_init ex_sizes (\<lambda>sd. 42) CURAND_XOR_WOW None 2 ex_world))
        (snd (standard_exponential ex_constructed (Some [3]) float64 ''inv'' None
           (snd (cuRANDGenerator_init ex_sizes (\<lambda>sd. 42) CURAND_XOR_WOW None 2 ex_world))))
       = [Exponential CURAND_XOR_WOW 4096 4192 3 7, Exponential CURAND_XOR_WOW 4096 4208 1 7]"
proof -
  let ?C = "cuRANDGenerator_init ex_sizes (\<lambda>sd. 42) CURAND_XOR_WOW None 2 ex_world"
  have le: "\<not> SSIZE_MAX < int (type_size ex_sizes CURAND_XOR_WOW * 2)"
    unfolding ex_type_size by (simp add: SSIZE_MAX_def)
  have C: "?C = (Inr \<lparr>bg_lock = Unlocked, bg_current_device = w_device ex_world,
                    bg_seed = uint (42 :: 64 word), bg_size = 2,
                    bg_state = fst (zeros (48 * 2) int8 ex_world),
                    bg_generator = CURAND_XOR_WOW\<rparr>,
               run_kernel (Init_curand_generator CURAND_XOR_WOW (w_brk ex_world)
                             (uint (42 :: 64 word)) 2 (w_stream ex_world))
                 (snd (zeros (48 * 2) int8 ex_world)))"
    using le unfolding cuRANDGenerator_init_cases Let_def ex_type_size by simp
  have a: "fst ?C = Inr ex_constructed"
    unfolding C by (simp add: ex_constructed_def ex_world_def)
  have b: "new_launches ex_world (snd ?C) = [Init_curand_generator CURAND_XOR_WOW 4096 42 2 7]"
    unfolding C by (rule new_launches_append) (simp add: run_kernel_def ex_world_def)
  have c: "bg_lock ex_constructed = Unlocked" by (simp add: ex_constructed_def)
  have f: "w_device (snd ?C) = 0" "w_stream (snd ?C) = 7" "w_brk (snd ?C) = 4192"
    unfolding C by (simp_all add: run_kernel_def ex_world_def)
  have d: "new_launches (snd ?C)
        (snd (standard_exponential ex_constructed (Some [3]) float64 ''inv'' None (snd ?C)))
       = [Exponential CURAND_XOR_WOW 4096 4192 3 7, Exponential CURAND_XOR_WOW 4096 4208 1 7]"
    by (rule new_launches_append [OF standard_exponential_launches [THEN trans]])
      (simp add: issued_def f sampled_def shape_arg_def ex_constructed_def nd_size_def
        chunks_of_def chunk_call_def elem_addr_def upt_rec)
  show ?thesis by (intro conjI a b c d)
qed

end
